theory Spec2Isabelle
  imports Complex_Main "HOL-Library.AList" "HOL-Library.Extended_Nat" "HOL-Library.Word"
begin

section \<open>The legacy fabric configuration converter (class ChipConfigData)\<close>

text \<open>
  A shallow embedding of \<^verbatim>\<open>ChipConfigData\<close>, the class that loads a chip.json file
  into per-fabric, global, ignored and generic buckets, writes it back, and answers the
  certificate and projection queries.

  Conventions of the embedding.
  \<^item> A JavaScript \<^verbatim>\<open>Map\<close> is an association list in insertion order;
    \<^verbatim>\<open>Map.set\<close> is \<^const>\<open>AList.update\<close> (overwrite in place, else append) and
    \<^verbatim>\<open>Map.get\<close> is \<^const>\<open>map_of\<close>. The plain object that \<^verbatim>\<open>save\<close> fills is
    an association list in the order in which the runtime enumerates its properties.
  \<^item> A string is a list of code units; only code units below 256 are represented.
  \<^item> A value of the file is a JSON value. The source types the values of
    \<^verbatim>\<open>sdk-config\<close> as strings, but nothing checks it at run time, so the model carries
    whatever \<^verbatim>\<open>JSON.parse\<close> delivered. A number of the file is carried as a real; the
    class stores such a value or hands it to \<^verbatim>\<open>Buffer.from\<close> and never computes with it.
  \<^item> JavaScript numbers are doubles. A fabric index is the double that
    \<^verbatim>\<open>parseInt(_, 16)\<close> returns for a string of hexadecimal digits, or a decoded fabric
    index: a natural number or \<^verbatim>\<open>Infinity\<close>, of type \<open>enat\<close>. A key-set index is what
    \<^verbatim>\<open>parseInt(_, 10)\<close> returns, of type \<open>number\<close>.
  \<^item> The TLV schemas, the certificate library and the functions of the runtime that are
    not written out here are collaborators outside the class: they are the fields of the
    record \<open>env\<close>, and every theorem holds for all of them. A decoder that throws returns
    \<open>None\<close>; a \<^verbatim>\<open>verify\<close> that throws returns \<open>Some cause\<close>.
\<close>

subsection \<open>Data model\<close>

type_synonym bytes = "8 word list"

datatype json = JNull | JBool bool | JNum real | JStr string
  | JArr "json list" | JObj "(string \<times> json) list"

datatype number = NaN | Num int | PosInfinity | NegInfinity

text \<open>
  The field \<open>base64\<close> holds the value of the file as it was found: a string for every
  file of the declared type.
\<close>

record DecodedEntry =
  raw :: bytes
  base64 :: json

record FabricMetadata =
  vendorId :: nat
  label :: string

record GroupKeyEntry =
  key :: bytes

record GroupKeySet =
  policy :: nat
  keyCount :: nat
  keys :: "GroupKeyEntry list"
  groupKeySetId :: nat

record FabricIndexList =
  nextFabricIndex :: nat
  fabricIndices :: "nat list"

record LastKnownGoodTime =
  epochSeconds :: nat

record SessionResumptionDetails =
  resumptionId :: bytes
  sharedSecret :: bytes
  cat :: bytes

record SessionResumptionEntry =
  fabricIndex :: nat
  peerNodeId :: nat

record FabricData =
  index :: enat
  noc :: "DecodedEntry option"
  icac :: "DecodedEntry option"
  rcac :: "DecodedEntry option"
  metadata :: "DecodedEntry option"
  metadataDecoded :: "FabricMetadata option"
  keys :: "(number \<times> DecodedEntry) list"
  keysDecoded :: "(number \<times> GroupKeySet) list"
  sessions :: "(string \<times> DecodedEntry) list"
  sessionsDecoded :: "(string \<times> SessionResumptionDetails) list"
  resumptions :: "(string \<times> DecodedEntry) list"
  resumptionsDecoded :: "(string \<times> SessionResumptionEntry) list"
  other :: "(string \<times> DecodedEntry) list"

record GlobalData =
  fabricIndexList :: "DecodedEntry option"
  fabricIndexListDecoded :: "FabricIndexList option"
  lastKnownGoodTime :: "DecodedEntry option"
  lastKnownGoodTimeDecoded :: "LastKnownGoodTime option"

record SessionData =
  resumptionIndex :: "DecodedEntry option"
  resumptionIndexDecoded :: "SessionResumptionEntry list option"

text \<open>
  The file after \<^verbatim>\<open>JSON.parse\<close>. \<open>sdk_config\<close> is
  \<^verbatim>\<open>Object.entries(data["sdk-config"])\<close>, in that order and with distinct keys, and
  \<open>None\<close> when the section is missing or \<^verbatim>\<open>null\<close>; \<open>repl_config\<close> is the value of
  the other section, \<open>None\<close> when it is missing.

  \<^verbatim>\<open>JSON.parse\<close> can also return \<^verbatim>\<open>null\<close>, on which the first property access of
  \<^verbatim>\<open>load\<close> throws. Any other value that is not an object has neither section and behaves
  like the empty object.
\<close>

record ChipConfigFile =
  sdk_config :: "(string \<times> json) list option"
  repl_config :: "json option"

datatype parsed = ParsedNull | ParsedFile ChipConfigFile

record ChipConfigData =
  fabrics :: "(enat \<times> FabricData) list"
  sessions :: SessionData
  globals :: GlobalData
  ignored :: "(string \<times> json) list"
  generic :: "(string \<times> json) list"
  replConfig :: json

record FabricConfigData =
  fabricIndex :: enat
  fabricId :: nat
  nodeId :: nat
  rootNodeId :: nat
  rootVendorId :: nat
  rootCert :: bytes
  rootPublicKey :: bytes
  identityProtectionKey :: bytes
  intermediateCACert :: "bytes option"
  operationalCert :: bytes
  label :: string

record CertificateVerificationResult =
  valid :: bool
  rcacValid :: "bool option"
  icacValid :: "bool option"
  nocValid :: "bool option"
  error :: "string option"

text \<open>The certificate objects of the library, with the fields this class reads.\<close>

record Rcac =
  rcac_tlv :: bytes
  rcacId :: "nat option"
  ellipticCurvePublicKey :: bytes

record Icac =
  icac_tlv :: bytes

record Noc =
  noc_tlv :: bytes
  nodeId :: "nat option"
  fabricId :: "nat option"

text \<open>
  The collaborators. \<open>Buffer_from_base64\<close> is \<^verbatim>\<open>Buffer.from(s, "base64")\<close> on a
  string, which never throws; \<open>Buffer_from_value\<close> is the same call on a value that is
  not a string, \<open>None\<close> when it throws its \<^verbatim>\<open>TypeError\<close> (it does for numbers, booleans
  and \<^verbatim>\<open>null\<close>, and accepts arrays). \<open>Number_toString\<close> gives the digits a template
  literal prints for a finite number from \<open>2^53\<close> on, where they are no longer the
  decimal digits of the value.
\<close>

record env =
  Buffer_from_base64 :: "string \<Rightarrow> bytes"
  Buffer_from_value :: "json \<Rightarrow> bytes option"
  Number_toString :: "nat \<Rightarrow> string"
  TlvFabricMetadata :: "bytes \<Rightarrow> FabricMetadata option"
  TlvGroupKeySet :: "bytes \<Rightarrow> GroupKeySet option"
  TlvSessionResumptionDetails :: "bytes \<Rightarrow> SessionResumptionDetails option"
  TlvFabricIndexList :: "bytes \<Rightarrow> FabricIndexList option"
  TlvLastKnownGoodTime :: "bytes \<Rightarrow> LastKnownGoodTime option"
  TlvSessionResumptionIndex :: "bytes \<Rightarrow> SessionResumptionEntry list option"
  TlvSessionResumptionEntry :: "bytes \<Rightarrow> SessionResumptionEntry option"
  Rcac_fromTlv :: "bytes \<Rightarrow> Rcac option"
  Icac_fromTlv :: "bytes \<Rightarrow> Icac option"
  Noc_fromTlv :: "bytes \<Rightarrow> Noc option"
  Rcac_verify :: "Rcac \<Rightarrow> string option"
  Icac_verify :: "Icac \<Rightarrow> Rcac \<Rightarrow> string option"
  Noc_verify :: "Noc \<Rightarrow> Rcac \<Rightarrow> Icac option \<Rightarrow> string option"
  readFile :: "string \<Rightarrow> string option"
  JSON_parse :: "string \<Rightarrow> parsed option"

subsection \<open>Strings and numbers of the runtime\<close>

definition startsWith :: "string \<Rightarrow> string \<Rightarrow> bool" where
  \<comment> \<open>\<^verbatim>\<open>s.startsWith(p)\<close>\<close>
  "startsWith s p = (take (length p) s = p)"

definition slice :: "string \<Rightarrow> nat \<Rightarrow> string" where
  \<comment> \<open>\<^verbatim>\<open>s.slice(n)\<close>\<close>
  "slice s n = drop n s"

definition isHexDigit :: "char \<Rightarrow> bool" where
  \<comment> \<open>the class \<^verbatim>\<open>[0-9a-fA-F]\<close>\<close>
  "isHexDigit c = (c \<in> set ''0123456789abcdefABCDEF'')"

definition isDecDigit :: "char \<Rightarrow> bool" where
  "isDecDigit c = (c \<in> set ''0123456789'')"

definition isLineTerminator :: "char \<Rightarrow> bool" where
  \<comment> \<open>what \<^verbatim>\<open>.\<close> refuses in a regular expression (below code unit 256)\<close>
  "isLineTerminator c = (c = CHR 0x0A \<or> c = CHR 0x0D)"

definition isWhiteSpace :: "char \<Rightarrow> bool" where
  \<comment> \<open>what \<^verbatim>\<open>parseInt\<close> skips at the start (below code unit 256)\<close>
  "isWhiteSpace c = (c \<in> set [CHR 0x09, CHR 0x0A, CHR 0x0B, CHR 0x0C, CHR 0x0D, CHR 0x20, CHR 0xA0])"

definition digitValue :: "char \<Rightarrow> nat" where
  \<comment> \<open>the value of a digit of \<^verbatim>\<open>parseInt\<close>; applied to hexadecimal digits only\<close>
  "digitValue c =
     (if c \<in> set ''0123456789'' then of_char c - 48
      else if c \<in> set ''abcdef'' then of_char c - 87
      else of_char c - 55)"

definition digitsValue :: "nat \<Rightarrow> string \<Rightarrow> nat" where
  \<comment> \<open>the integer a string of digits denotes in a radix\<close>
  "digitsValue radix ds = foldl (\<lambda>a c. radix * a + digitValue c) 0 ds"

fun bitLength :: "nat \<Rightarrow> nat" where
  "bitLength n = (if n = 0 then 0 else Suc (bitLength (n div 2)))"

declare bitLength.simps [simp del]

definition toNumber :: "nat \<Rightarrow> enat" where
  \<comment> \<open>the Number value of a non-negative integer: the nearest double, a tie going to
      the even significand of 53 bits, and \<^verbatim>\<open>Infinity\<close> from \<open>2^1024\<close> on\<close>
  "toNumber n =
     (if n < 2 ^ 53 then enat n
      else let e = bitLength n - 53;
               q = n div 2 ^ e;
               r = n mod 2 ^ e;
               h = 2 ^ (e - 1);
               m = (if h < r \<or> (r = h \<and> odd q) then q + 1 else q) * 2 ^ e
           in if m < 2 ^ 1024 then enat m else \<infinity>)"

definition parseIntHex :: "string \<Rightarrow> enat" where
  \<comment> \<open>\<^verbatim>\<open>parseInt(s, 16)\<close> for a non-empty string of hexadecimal digits, the only
      argument the source passes: no white space, sign or \<^verbatim>\<open>0x\<close> to strip.\<close>
  "parseIntHex s = toNumber (digitsValue 16 s)"

definition parseInt10 :: "string \<Rightarrow> number" where
  \<comment> \<open>\<^verbatim>\<open>parseInt(s, 10)\<close>: skip white space, read a sign, read the longest run of
      digits; \<^verbatim>\<open>NaN\<close> when there is none. (Beyond 20 significant digits the language
      allows an implementation to drop digits before rounding; the model rounds the exact
      value, as the runtime of the repository does.)\<close>
  "parseInt10 s =
     (let t = dropWhile isWhiteSpace s;
          neg = (t \<noteq> [] \<and> hd t = CHR ''-'');
          u = (if t \<noteq> [] \<and> (hd t = CHR ''-'' \<or> hd t = CHR ''+'') then tl t else t);
          ds = takeWhile isDecDigit u
      in if ds = [] then NaN
         else (case toNumber (digitsValue 10 ds) of
                 enat m \<Rightarrow> if neg then Num (- int m) else Num (int m)
               | \<infinity> \<Rightarrow> if neg then NegInfinity else PosInfinity))"

definition decimalDigit :: "nat \<Rightarrow> char" where
  \<comment> \<open>applied to \<open>d < 10\<close> only\<close>
  "decimalDigit d = ''0123456789'' ! d"

fun natToString :: "nat \<Rightarrow> string" where
  "natToString n =
     (if n < 10 then [decimalDigit n] else natToString (n div 10) @ [decimalDigit (n mod 10)])"

declare natToString.simps [simp del]

definition digitsOf :: "env \<Rightarrow> nat \<Rightarrow> string" where
  \<comment> \<open>a finite non-negative number inside a template literal\<close>
  "digitsOf e n = (if n < 2 ^ 53 then natToString n else Number_toString e n)"

definition indexToString :: "env \<Rightarrow> enat \<Rightarrow> string" where
  \<comment> \<open>a fabric index inside a template literal\<close>
  "indexToString e i = (case i of enat n \<Rightarrow> digitsOf e n | \<infinity> \<Rightarrow> ''Infinity'')"

definition numberToString :: "env \<Rightarrow> number \<Rightarrow> string" where
  \<comment> \<open>a key-set index inside a template literal\<close>
  "numberToString e x =
     (case x of
        NaN \<Rightarrow> ''NaN''
      | PosInfinity \<Rightarrow> ''Infinity''
      | NegInfinity \<Rightarrow> ''-Infinity''
      | Num i \<Rightarrow> if i < 0 then CHR ''-'' # digitsOf e (nat (- i)) else digitsOf e (nat i))"

subsection \<open>Key classifier and fabric aggregator\<close>

datatype load_error = ReadError | JsonSyntaxError | TypeError

definition IGNORED_KEYS :: "string list" where
  \<comment> \<open>the strings the anchored patterns of \<^verbatim>\<open>IGNORED_KEY_PATTERNS\<close> accept\<close>
  "IGNORED_KEYS = [''g/fs/c'', ''g/fs/n'', ''g/gdc'', ''g/gcc'', ''g/gfl'', ''g/icdfl'']"

definition isIgnoredKey :: "string \<Rightarrow> bool" where
  "isIgnoredKey k = (k \<in> set IGNORED_KEYS)"

definition decodeEntry :: "env \<Rightarrow> json \<Rightarrow> DecodedEntry option" where
  \<comment> \<open>\<open>None\<close> when \<^verbatim>\<open>Buffer.from\<close> throws its \<^verbatim>\<open>TypeError\<close>\<close>
  "decodeEntry e v =
     (case v of
        JStr b \<Rightarrow> Some \<lparr>raw = Buffer_from_base64 e b, base64 = v\<rparr>
      | _ \<Rightarrow> (case Buffer_from_value e v of
                None \<Rightarrow> None
              | Some bs \<Rightarrow> Some \<lparr>raw = bs, base64 = v\<rparr>))"

definition newFabric :: "enat \<Rightarrow> FabricData" where
  "newFabric i =
     \<lparr>index = i, noc = None, icac = None, rcac = None, metadata = None,
      metadataDecoded = None, keys = [], keysDecoded = [], sessions = [],
      sessionsDecoded = [], resumptions = [], resumptionsDecoded = [], other = []\<rparr>"

definition getFabric :: "ChipConfigData \<Rightarrow> enat \<Rightarrow> FabricData option" where
  "getFabric st i = map_of (fabrics st) i"

definition getOrCreateFabric :: "enat \<Rightarrow> ChipConfigData \<Rightarrow> ChipConfigData" where
  \<comment> \<open>the state after the call; the fabric object it returns is \<open>getFabric\<close> of that state\<close>
  "getOrCreateFabric i st =
     (case getFabric st i of
        Some f \<Rightarrow> st
      | None \<Rightarrow> st\<lparr>fabrics := fabrics st @ [(i, newFabric i)]\<rparr>)"

definition modifyFabric :: "enat \<Rightarrow> (FabricData \<Rightarrow> FabricData) \<Rightarrow> ChipConfigData \<Rightarrow> ChipConfigData" where
  \<comment> \<open>an assignment through the fabric reference held in the map\<close>
  "modifyFabric i g st = st\<lparr>fabrics := AList.map_entry i g (fabrics st)\<rparr>"

definition matchFabricKey :: "string \<Rightarrow> (string \<times> string) option" where
  \<comment> \<open>\<^verbatim>\<open>key.match(/^f\/([0-9a-fA-F]+)\/(.+)$/)\<close>: the two groups. The slash is no
      hexadecimal digit, so the first group is the whole run of digits after \<^verbatim>\<open>f/\<close>.\<close>
  "matchFabricKey k =
     (if startsWith k ''f/'' then
        (let r = drop 2 k; seg = takeWhile isHexDigit r; t = dropWhile isHexDigit r
         in if seg \<noteq> [] \<and> t \<noteq> [] \<and> hd t = CHR ''/'' \<and> tl t \<noteq> []
               \<and> \<not> list_ex isLineTerminator (tl t)
            then Some (seg, tl t) else None)
      else None)"

text \<open>
  The two parsers return what they throw or \<open>Inr ()\<close>, and the state they leave. Their
  only throw is that of \<open>decodeEntry\<close>, which stands outside every \<^verbatim>\<open>try\<close>; in
  \<open>parseFabricKey\<close> the fabric has been created by then.
\<close>

definition parseFabricKey ::
  "env \<Rightarrow> string \<Rightarrow> json \<Rightarrow> ChipConfigData \<Rightarrow> (load_error + unit) \<times> ChipConfigData" where
  "parseFabricKey e k v st =
     (case matchFabricKey k of
        None \<Rightarrow> (Inr (), st)
      | Some (seg, subKey) \<Rightarrow>
          (let fabricIndex = parseIntHex seg;
               st1 = getOrCreateFabric fabricIndex st
           in case decodeEntry e v of
                None \<Rightarrow> (Inl TypeError, st1)
              | Some entry \<Rightarrow>
                 (Inr (),
                  if subKey = ''n'' then modifyFabric fabricIndex (\<lambda>f. f\<lparr>noc := Some entry\<rparr>) st1
                  else if subKey = ''i'' then modifyFabric fabricIndex (\<lambda>f. f\<lparr>icac := Some entry\<rparr>) st1
                  else if subKey = ''r'' then modifyFabric fabricIndex (\<lambda>f. f\<lparr>rcac := Some entry\<rparr>) st1
                  else if subKey = ''m'' then
                    modifyFabric fabricIndex
                      (\<lambda>f. case TlvFabricMetadata e (raw entry) of
                              Some d \<Rightarrow> f\<lparr>metadata := Some entry, metadataDecoded := Some d\<rparr>
                            | None \<Rightarrow> f\<lparr>metadata := Some entry\<rparr>) st1
                  else if startsWith subKey ''k/'' then
                    (let keyIndex = parseInt10 (slice subKey 2)
                     in modifyFabric fabricIndex
                          (\<lambda>f. case TlvGroupKeySet e (raw entry) of
                                  Some d \<Rightarrow> f\<lparr>keys := AList.update keyIndex entry (keys f),
                                              keysDecoded := AList.update keyIndex d (keysDecoded f)\<rparr>
                                | None \<Rightarrow> f\<lparr>keys := AList.update keyIndex entry (keys f)\<rparr>) st1)
                  else if startsWith subKey ''s/'' then
                    (let nodeHex = slice subKey 2
                     in modifyFabric fabricIndex
                          (\<lambda>f. case TlvSessionResumptionDetails e (raw entry) of
                                  Some d \<Rightarrow> f\<lparr>FabricData.sessions := AList.update nodeHex entry (FabricData.sessions f),
                                              sessionsDecoded := AList.update nodeHex d (sessionsDecoded f)\<rparr>
                                | None \<Rightarrow> f\<lparr>FabricData.sessions := AList.update nodeHex entry (FabricData.sessions f)\<rparr>) st1)
                  else modifyFabric fabricIndex (\<lambda>f. f\<lparr>other := AList.update subKey entry (other f)\<rparr>) st1)))"

definition parseGlobalKey ::
  "env \<Rightarrow> string \<Rightarrow> json \<Rightarrow> ChipConfigData \<Rightarrow> (load_error + unit) \<times> ChipConfigData" where
  "parseGlobalKey e k v st =
     (case decodeEntry e v of
        None \<Rightarrow> (Inl TypeError, st)
      | Some entry \<Rightarrow>
         (Inr (),
          if k = ''g/fidx'' then
            (case TlvFabricIndexList e (raw entry) of
               Some d \<Rightarrow> st\<lparr>globals := (globals st)\<lparr>fabricIndexList := Some entry, fabricIndexListDecoded := Some d\<rparr>\<rparr>
             | None \<Rightarrow> st\<lparr>globals := (globals st)\<lparr>fabricIndexList := Some entry\<rparr>\<rparr>)
          else if k = ''g/lkgt'' then
            (case TlvLastKnownGoodTime e (raw entry) of
               Some d \<Rightarrow> st\<lparr>globals := (globals st)\<lparr>lastKnownGoodTime := Some entry, lastKnownGoodTimeDecoded := Some d\<rparr>\<rparr>
             | None \<Rightarrow> st\<lparr>globals := (globals st)\<lparr>lastKnownGoodTime := Some entry\<rparr>\<rparr>)
          else if k = ''g/sri'' then
            (case TlvSessionResumptionIndex e (raw entry) of
               Some d \<Rightarrow> st\<lparr>sessions := (sessions st)\<lparr>resumptionIndex := Some entry, resumptionIndexDecoded := Some d\<rparr>\<rparr>
             | None \<Rightarrow> st\<lparr>sessions := (sessions st)\<lparr>resumptionIndex := Some entry\<rparr>\<rparr>)
          else if startsWith k ''g/s/'' then
            (let rid = slice k 4
             in case TlvSessionResumptionEntry e (raw entry) of
                  Some decoded \<Rightarrow>
                    modifyFabric (enat (SessionResumptionEntry.fabricIndex decoded))
                      (\<lambda>f. f\<lparr>resumptions := AList.update rid entry (resumptions f),
                             resumptionsDecoded := AList.update rid decoded (resumptionsDecoded f)\<rparr>)
                      (getOrCreateFabric (enat (SessionResumptionEntry.fabricIndex decoded)) st)
                | None \<Rightarrow> st\<lparr>generic := AList.update k v (generic st)\<rparr>)
          else st))"

subsection \<open>Loading\<close>

definition loadEntry ::
  "env \<Rightarrow> string \<times> json \<Rightarrow> ChipConfigData \<Rightarrow> (load_error + unit) \<times> ChipConfigData" where
  \<comment> \<open>the body of the loop over \<^verbatim>\<open>Object.entries(sdkConfig)\<close>\<close>
  "loadEntry e kv st =
     (let k = fst kv; v = snd kv
      in if isIgnoredKey k then (Inr (), st\<lparr>ignored := AList.update k v (ignored st)\<rparr>)
         else if startsWith k ''f/'' then parseFabricKey e k v st
         else if startsWith k ''g/'' then parseGlobalKey e k v st
         else (Inr (), st\<lparr>generic := AList.update k v (generic st)\<rparr>))"

fun loadEntries ::
  "env \<Rightarrow> (string \<times> json) list \<Rightarrow> ChipConfigData \<Rightarrow> (load_error + unit) \<times> ChipConfigData" where
  \<comment> \<open>the loop: it ends at the first entry that throws\<close>
  "loadEntries e [] st = (Inr (), st)"
| "loadEntries e (kv # kvs) st =
     (case loadEntry e kv st of
        (Inl err, st') \<Rightarrow> (Inl err, st')
      | (Inr u, st') \<Rightarrow> loadEntries e kvs st')"

definition clearData :: "ChipConfigData \<Rightarrow> ChipConfigData" where
  \<comment> \<open>"Clear existing data"\<close>
  "clearData st =
     st\<lparr>fabrics := [],
        sessions := \<lparr>resumptionIndex = None, resumptionIndexDecoded = None\<rparr>,
        globals := \<lparr>fabricIndexList = None, fabricIndexListDecoded = None,
                    lastKnownGoodTime = None, lastKnownGoodTimeDecoded = None\<rparr>,
        ignored := [],
        generic := []\<rparr>"

definition clearState :: "ChipConfigFile \<Rightarrow> ChipConfigData \<Rightarrow> ChipConfigData" where
  \<comment> \<open>"Clear existing data", then "Store repl-config as-is":
      \<^verbatim>\<open>data["repl-config"] ?? {}\<close>\<close>
  "clearState d st =
     (clearData st)\<lparr>replConfig :=
        (case repl_config d of None \<Rightarrow> JObj [] | Some JNull \<Rightarrow> JObj [] | Some j \<Rightarrow> j)\<rparr>"

definition sdkEntries :: "ChipConfigFile \<Rightarrow> (string \<times> json) list" where
  \<comment> \<open>\<^verbatim>\<open>Object.entries(data["sdk-config"] ?? {})\<close>\<close>
  "sdkEntries d = (case sdk_config d of None \<Rightarrow> [] | Some kvs \<Rightarrow> kvs)"

definition loadParsed ::
  "env \<Rightarrow> ChipConfigFile \<Rightarrow> ChipConfigData \<Rightarrow> (load_error + unit) \<times> ChipConfigData" where
  \<comment> \<open>\<^verbatim>\<open>load\<close> from the parsed file on: what it throws or returns, and the state it leaves\<close>
  "loadParsed e d st = loadEntries e (sdkEntries d) (clearState d st)"

definition loadData :: "env \<Rightarrow> ChipConfigFile \<Rightarrow> ChipConfigData \<Rightarrow> ChipConfigData" where
  \<comment> \<open>the model that \<^verbatim>\<open>load\<close> leaves behind, from the parsed file on\<close>
  "loadData e d st = snd (loadParsed e d st)"

definition load :: "env \<Rightarrow> string \<Rightarrow> ChipConfigData \<Rightarrow> (load_error + unit) \<times> ChipConfigData" where
  \<comment> \<open>\<^verbatim>\<open>load(filePath)\<close>: what it throws or returns, and the state it leaves\<close>
  "load e filePath st =
     (case readFile e filePath of
        None \<Rightarrow> (Inl ReadError, st)
      | Some content \<Rightarrow>
          (case JSON_parse e content of
             None \<Rightarrow> (Inl JsonSyntaxError, st)
           | Some ParsedNull \<Rightarrow> (Inl TypeError, clearData st)
           | Some (ParsedFile d) \<Rightarrow> loadParsed e d st))"

subsection \<open>Saving\<close>

definition isArrayIndex :: "string \<Rightarrow> bool" where
  \<comment> \<open>a property key that the runtime enumerates before the others, in numeric order:
      the decimal digits of a number below \<open>2^32 - 1\<close>, without a leading zero\<close>
  "isArrayIndex k =
     (k \<noteq> [] \<and> list_all isDecDigit k \<and> (length k = 1 \<or> hd k \<noteq> CHR ''0'')
      \<and> digitsValue 10 k < 4294967295)"

fun insertIndex :: "string \<Rightarrow> json \<Rightarrow> (string \<times> json) list \<Rightarrow> (string \<times> json) list" where
  \<comment> \<open>a new array-index key takes its place among the array-index keys at the front\<close>
  "insertIndex k v [] = [(k, v)]"
| "insertIndex k v (p # ps) =
     (if isArrayIndex (fst p) \<and> digitsValue 10 (fst p) < digitsValue 10 k
      then p # insertIndex k v ps else (k, v) # p # ps)"

definition objSet :: "string \<Rightarrow> json \<Rightarrow> (string \<times> json) list \<Rightarrow> (string \<times> json) list" where
  \<comment> \<open>\<^verbatim>\<open>sdkConfig[k] = v\<close> on the plain object: the key \<^verbatim>\<open>__proto__\<close> reaches the
      accessor of the prototype and creates no property\<close>
  "objSet k v cfg =
     (if k = ''__proto__'' then cfg
      else if isArrayIndex k \<and> map_of cfg k = None then insertIndex k v cfg
      else AList.update k v cfg)"

definition fabricPrefix :: "env \<Rightarrow> enat \<Rightarrow> string" where
  \<comment> \<open>the template \<^verbatim>\<open>f/${fabricIndex}\<close>\<close>
  "fabricPrefix e i = ''f/'' @ indexToString e i"

definition putEntry :: "string \<Rightarrow> DecodedEntry option \<Rightarrow> (string \<times> json) list \<Rightarrow> (string \<times> json) list" where
  \<comment> \<open>\<^verbatim>\<open>if (x) sdkConfig[k] = x.base64\<close>\<close>
  "putEntry k x cfg = (case x of None \<Rightarrow> cfg | Some en \<Rightarrow> objSet k (base64 en) cfg)"

definition saveFabric :: "env \<Rightarrow> enat \<times> FabricData \<Rightarrow> (string \<times> json) list \<Rightarrow> (string \<times> json) list" where
  \<comment> \<open>the body of the loop over \<^verbatim>\<open>this.fabrics\<close>\<close>
  "saveFabric e p cfg =
     (let prefix = fabricPrefix e (fst p); f = snd p;
          c1 = putEntry (prefix @ ''/n'') (noc f) cfg;
          c2 = putEntry (prefix @ ''/i'') (icac f) c1;
          c3 = putEntry (prefix @ ''/r'') (rcac f) c2;
          c4 = putEntry (prefix @ ''/m'') (metadata f) c3;
          c5 = fold (\<lambda>(keyIndex, en). objSet (prefix @ ''/k/'' @ numberToString e keyIndex) (base64 en)) (keys f) c4;
          c6 = fold (\<lambda>(nodeHex, en). objSet (prefix @ ''/s/'' @ nodeHex) (base64 en)) (FabricData.sessions f) c5;
          c7 = fold (\<lambda>(rid, en). objSet (''g/s/'' @ rid) (base64 en)) (resumptions f) c6
      in fold (\<lambda>(subKey, en). objSet (prefix @ ''/'' @ subKey) (base64 en)) (other f) c7)"

definition objectKeysCount :: "json \<Rightarrow> nat" where
  \<comment> \<open>\<^verbatim>\<open>Object.keys(x).length\<close>\<close>
  "objectKeysCount x =
     (case x of JObj fs \<Rightarrow> length fs | JArr xs \<Rightarrow> length xs | JStr s \<Rightarrow> length s | _ \<Rightarrow> 0)"

definition saveData :: "env \<Rightarrow> ChipConfigData \<Rightarrow> ChipConfigFile" where
  \<comment> \<open>the object \<^verbatim>\<open>save\<close> hands to \<^verbatim>\<open>JSON.stringify\<close>\<close>
  "saveData e st =
     (let c1 = putEntry ''g/fidx'' (fabricIndexList (globals st)) [];
          c2 = putEntry ''g/lkgt'' (lastKnownGoodTime (globals st)) c1;
          c3 = putEntry ''g/sri'' (resumptionIndex (sessions st)) c2;
          c4 = fold (saveFabric e) (fabrics st) c3;
          c5 = fold (\<lambda>(k, v). objSet k v) (ignored st) c4;
          c6 = fold (\<lambda>(k, v). objSet k v) (generic st) c5
      in \<lparr>sdk_config = Some c6,
          repl_config = (if 0 < objectKeysCount (replConfig st) then Some (replConfig st) else None)\<rparr>)"

subsection \<open>Queries\<close>

definition getFabricIndices :: "ChipConfigData \<Rightarrow> enat list" where
  "getFabricIndices st = sort (map fst (fabrics st))"

definition getRcac :: "env \<Rightarrow> ChipConfigData \<Rightarrow> enat \<Rightarrow> Rcac option" where
  "getRcac e st i =
     (case getFabric st i of
        None \<Rightarrow> None
      | Some f \<Rightarrow> (case rcac f of None \<Rightarrow> None | Some en \<Rightarrow> Rcac_fromTlv e (raw en)))"

definition getIcac :: "env \<Rightarrow> ChipConfigData \<Rightarrow> enat \<Rightarrow> Icac option" where
  "getIcac e st i =
     (case getFabric st i of
        None \<Rightarrow> None
      | Some f \<Rightarrow> (case icac f of None \<Rightarrow> None | Some en \<Rightarrow> Icac_fromTlv e (raw en)))"

definition getNoc :: "env \<Rightarrow> ChipConfigData \<Rightarrow> enat \<Rightarrow> Noc option" where
  "getNoc e st i =
     (case getFabric st i of
        None \<Rightarrow> None
      | Some f \<Rightarrow> (case noc f of None \<Rightarrow> None | Some en \<Rightarrow> Noc_fromTlv e (raw en)))"

subsection \<open>Certificate chain verifier\<close>

text \<open>
  The verifier returns its result together with the calls it made into the certificate
  library, in order, so that "this step did not run" is a statement about the model.
\<close>

datatype call = RcacFromTlv | IcacFromTlv | NocFromTlv | RcacVerify | IcacVerify | NocVerify

definition getRcacCalls :: "ChipConfigData \<Rightarrow> enat \<Rightarrow> call list" where
  \<comment> \<open>\<^verbatim>\<open>getRcac\<close> reaches \<^verbatim>\<open>Rcac.fromTlv\<close> only when the fabric has RCAC bytes\<close>
  "getRcacCalls st i =
     (case getFabric st i of
        None \<Rightarrow> []
      | Some f \<Rightarrow> (case rcac f of None \<Rightarrow> [] | Some en \<Rightarrow> [RcacFromTlv]))"

definition getIcacCalls :: "ChipConfigData \<Rightarrow> enat \<Rightarrow> call list" where
  "getIcacCalls st i =
     (case getFabric st i of
        None \<Rightarrow> []
      | Some f \<Rightarrow> (case icac f of None \<Rightarrow> [] | Some en \<Rightarrow> [IcacFromTlv]))"

definition getNocCalls :: "ChipConfigData \<Rightarrow> enat \<Rightarrow> call list" where
  "getNocCalls st i =
     (case getFabric st i of
        None \<Rightarrow> []
      | Some f \<Rightarrow> (case noc f of None \<Rightarrow> [] | Some en \<Rightarrow> [NocFromTlv]))"

definition initialResult :: CertificateVerificationResult where
  \<comment> \<open>\<^verbatim>\<open>{ valid: false }\<close>\<close>
  "initialResult = \<lparr>valid = False, rcacValid = None, icacValid = None, nocValid = None, error = None\<rparr>"

definition verifyNocStep ::
  "env \<Rightarrow> Noc \<Rightarrow> Rcac \<Rightarrow> Icac option \<Rightarrow> CertificateVerificationResult \<Rightarrow> call list
     \<Rightarrow> CertificateVerificationResult \<times> call list" where
  \<comment> \<open>from "Verify NOC" to the end of \<^verbatim>\<open>verifyCertificateChain\<close>\<close>
  "verifyNocStep e nc rc ic result calls =
     (case Noc_verify e nc rc ic of
        Some cause \<Rightarrow>
          (result\<lparr>nocValid := Some False, error := Some (''NOC verification failed: '' @ cause)\<rparr>,
           calls @ [NocVerify])
      | None \<Rightarrow> (result\<lparr>nocValid := Some True, valid := True\<rparr>, calls @ [NocVerify]))"

definition verifyCertificateChain ::
  "env \<Rightarrow> ChipConfigData \<Rightarrow> enat \<Rightarrow> CertificateVerificationResult \<times> call list" where
  "verifyCertificateChain e st i =
     (let result = initialResult; c1 = getRcacCalls st i
      in case getRcac e st i of
           None \<Rightarrow> (result\<lparr>error := Some ''RCAC not found or invalid''\<rparr>, c1)
         | Some rc \<Rightarrow>
             (let ic = getIcac e st i; c2 = c1 @ getIcacCalls st i; c3 = c2 @ getNocCalls st i
              in case getNoc e st i of
                   None \<Rightarrow> (result\<lparr>error := Some ''NOC not found or invalid''\<rparr>, c3)
                 | Some nc \<Rightarrow>
                     (case Rcac_verify e rc of
                        Some cause \<Rightarrow>
                          (result\<lparr>rcacValid := Some False,
                                  error := Some (''RCAC verification failed: '' @ cause)\<rparr>,
                           c3 @ [RcacVerify])
                      | None \<Rightarrow>
                          (let r1 = result\<lparr>rcacValid := Some True\<rparr>; c4 = c3 @ [RcacVerify]
                           in case ic of
                                Some icert \<Rightarrow>
                                  (case Icac_verify e icert rc of
                                     Some cause \<Rightarrow>
                                       (r1\<lparr>icacValid := Some False,
                                           error := Some (''ICAC verification failed: '' @ cause)\<rparr>,
                                        c4 @ [IcacVerify])
                                   | None \<Rightarrow>
                                       verifyNocStep e nc rc ic (r1\<lparr>icacValid := Some True\<rparr>)
                                         (c4 @ [IcacVerify]))
                              | None \<Rightarrow> verifyNocStep e nc rc ic r1 c4))))"

subsection \<open>Config projector\<close>

definition getFabricConfig :: "env \<Rightarrow> ChipConfigData \<Rightarrow> enat \<Rightarrow> FabricConfigData option" where
  "getFabricConfig e st i =
     (case getFabric st i of
        None \<Rightarrow> None
      | Some fabric \<Rightarrow>
          (case getRcac e st i of
             None \<Rightarrow> None
           | Some rc \<Rightarrow>
          (case getNoc e st i of
             None \<Rightarrow> None
           | Some nc \<Rightarrow>
          (case rcac fabric of
             None \<Rightarrow> None
           | Some rcacEntry \<Rightarrow>
          (case noc fabric of
             None \<Rightarrow> None
           | Some nocEntry \<Rightarrow>
          (case Noc.nodeId nc of
             None \<Rightarrow> None
           | Some nid \<Rightarrow>
          (case Noc.fabricId nc of
             None \<Rightarrow> None
           | Some fid \<Rightarrow>
          (case rcacId rc of
             None \<Rightarrow> None
           | Some rid \<Rightarrow>
          (case metadataDecoded fabric of
             None \<Rightarrow> None
           | Some md \<Rightarrow>
          (case map_of (keysDecoded fabric) (Num 0) of
             None \<Rightarrow> None
           | Some ipkKeySet \<Rightarrow>
               if length (GroupKeySet.keys ipkKeySet) = 0 then None
               else
                 (case find (\<lambda>k. length (key k) = 16) (GroupKeySet.keys ipkKeySet) of
                    None \<Rightarrow> None
                  | Some ipkEntry \<Rightarrow>
                      Some \<lparr>fabricIndex = i, fabricId = fid, nodeId = nid, rootNodeId = rid,
                            rootVendorId = vendorId md, rootCert = raw rcacEntry,
                            rootPublicKey = ellipticCurvePublicKey rc,
                            identityProtectionKey = key ipkEntry,
                            intermediateCACert = map_option raw (icac fabric),
                            operationalCert = raw nocEntry,
                            label = FabricMetadata.label md\<rparr>)))))))))))"

subsection \<open>Observations of the loaded model\<close>

text \<open>
  The statements about \<^verbatim>\<open>load\<close> speak about "the slot a key is routed to". The slots
  that have a decoded companion are named here, with the routing of \<open>loadEntry\<close>,
  \<open>parseFabricKey\<close> and \<open>parseGlobalKey\<close> read off as a function of the key alone.
\<close>

datatype slot =
    MetadataSlot enat
  | KeySlot enat number
  | SessionSlot enat string
  | FabricIndexListSlot
  | LastKnownGoodTimeSlot
  | ResumptionIndexSlot

definition decodedSlot :: "string \<Rightarrow> slot option" where
  \<comment> \<open>the slot with a decoded companion that a key is stored in, if it is stored in one\<close>
  "decodedSlot k =
     (if isIgnoredKey k then None
      else if startsWith k ''f/'' then
        (case matchFabricKey k of
           None \<Rightarrow> None
         | Some (seg, subKey) \<Rightarrow>
             if subKey = ''n'' \<or> subKey = ''i'' \<or> subKey = ''r'' then None
             else if subKey = ''m'' then Some (MetadataSlot (parseIntHex seg))
             else if startsWith subKey ''k/'' then
               Some (KeySlot (parseIntHex seg) (parseInt10 (slice subKey 2)))
             else if startsWith subKey ''s/'' then
               Some (SessionSlot (parseIntHex seg) (slice subKey 2))
             else None)
      else if k = ''g/fidx'' then Some FabricIndexListSlot
      else if k = ''g/lkgt'' then Some LastKnownGoodTimeSlot
      else if k = ''g/sri'' then Some ResumptionIndexSlot
      else None)"




definition resumptionAt ::
  "ChipConfigData \<Rightarrow> enat \<Rightarrow> string \<Rightarrow> DecodedEntry option \<times> SessionResumptionEntry option" where
  \<comment> \<open>what fabric \<open>n\<close> holds for a resumption identifier\<close>
  "resumptionAt st n rid =
     (case getFabric st n of
        None \<Rightarrow> (None, None)
      | Some f \<Rightarrow> (map_of (resumptions f) rid, map_of (resumptionsDecoded f) rid))"

definition createdFabric :: "env \<Rightarrow> string \<times> json \<Rightarrow> enat option" where
  \<comment> \<open>the fabric index an entry of the file passes to \<open>getOrCreateFabric\<close>, if it reaches it\<close>
  "createdFabric e kv =
     (let k = fst kv; v = snd kv
      in if isIgnoredKey k then None
         else if startsWith k ''f/'' then
           (case matchFabricKey k of None \<Rightarrow> None | Some (seg, subKey) \<Rightarrow> Some (parseIntHex seg))
         else if startsWith k ''g/s/'' then
           (case decodeEntry e v of
              None \<Rightarrow> None
            | Some entry \<Rightarrow>
                map_option (\<lambda>r. enat (SessionResumptionEntry.fabricIndex r))
                  (TlvSessionResumptionEntry e (raw entry)))
         else None)"

definition loadEntryState :: "env \<Rightarrow> string \<times> json \<Rightarrow> ChipConfigData \<Rightarrow> ChipConfigData" where
  \<comment> \<open>the state one pass of the loop leaves\<close>
  "loadEntryState e kv st = snd (loadEntry e kv st)"

fun isString :: "json \<Rightarrow> bool" where
  "isString (JStr s) = True"
| "isString v = False"

subsection \<open>A sample environment\<close>

text \<open>
  The theorems below hold for every environment. To run the model on concrete files, the
  following environment fixes the collaborators on a handful of payloads: two payloads of
  the repository's tests (fabric metadata of vendor 4939, a resumption entry of fabric 1),
  the bytes of the text "invalid", which no schema accepts, and one-byte stand-ins for
  certificates and for a group key set (the root \<open>0x53\<close> fails its self-verification, the
  intermediate \<open>0x4A\<close> fails verification against the root). Of the file system it knows
  a file that is not JSON, a file holding the empty object and a file holding \<^verbatim>\<open>null\<close>.
  No statement below hands it a value that is not a string, or has it print a number from
  \<open>2^53\<close> on.
\<close>

definition newChipConfigData :: ChipConfigData where
  \<comment> \<open>\<^verbatim>\<open>new ChipConfigData()\<close>\<close>
  "newChipConfigData =
     \<lparr>fabrics = [],
      sessions = \<lparr>resumptionIndex = None, resumptionIndexDecoded = None\<rparr>,
      globals = \<lparr>fabricIndexList = None, fabricIndexListDecoded = None,
                  lastKnownGoodTime = None, lastKnownGoodTimeDecoded = None\<rparr>,
      ignored = [], generic = [], replConfig = JObj []\<rparr>"

definition sample_base64 :: "string \<Rightarrow> bytes" where
  "sample_base64 s =
     (if s = ''FSUASxMsAQAY'' then [0x15, 0x25, 0x00, 0x4B, 0x13, 0x2C, 0x01, 0x00, 0x18]
      else if s = ''FSQBASQCcBg='' then [0x15, 0x24, 0x01, 0x01, 0x24, 0x02, 0x70, 0x18]
      else if s = ''aW52YWxpZA=='' then [0x69, 0x6E, 0x76, 0x61, 0x6C, 0x69, 0x64]
      else if s = ''dGVzdA=='' then [0x74, 0x65, 0x73, 0x74]
      else if s = ''Ug=='' then [0x52]
      else if s = ''Uw=='' then [0x53]
      else if s = ''SQ=='' then [0x49]
      else if s = ''Sg=='' then [0x4A]
      else if s = ''Tg=='' then [0x4E]
      else if s = ''Sw=='' then [0x4B]
      else [])"

definition sample_env :: env where
  "sample_env =
     \<lparr>Buffer_from_base64 = sample_base64,
      Buffer_from_value = (\<lambda>v. None),
      Number_toString = natToString,
      TlvFabricMetadata =
        (\<lambda>b. if b = [0x15, 0x25, 0x00, 0x4B, 0x13, 0x2C, 0x01, 0x00, 0x18]
              then Some \<lparr>vendorId = 4939, label = []\<rparr> else None),
      TlvGroupKeySet =
        (\<lambda>b. if b = [0x4B]
              then Some \<lparr>policy = 0, keyCount = 1,
                         keys = [\<lparr>key = [1, 2, 3]\<rparr>, \<lparr>key = replicate 16 7\<rparr>],
                         groupKeySetId = 65535\<rparr>
              else None),
      TlvSessionResumptionDetails = (\<lambda>b. None),
      TlvFabricIndexList = (\<lambda>b. None),
      TlvLastKnownGoodTime = (\<lambda>b. None),
      TlvSessionResumptionIndex = (\<lambda>b. None),
      TlvSessionResumptionEntry =
        (\<lambda>b. if b = [0x15, 0x24, 0x01, 0x01, 0x24, 0x02, 0x70, 0x18]
              then Some \<lparr>SessionResumptionEntry.fabricIndex = 1, peerNodeId = 112\<rparr> else None),
      Rcac_fromTlv =
        (\<lambda>b. if b = [0x52] \<or> b = [0x53]
              then Some \<lparr>rcac_tlv = b, rcacId = Some 1, ellipticCurvePublicKey = [4]\<rparr>
              else None),
      Icac_fromTlv = (\<lambda>b. if b = [0x49] \<or> b = [0x4A] then Some \<lparr>icac_tlv = b\<rparr> else None),
      Noc_fromTlv =
        (\<lambda>b. if b = [0x4E]
              then Some \<lparr>noc_tlv = b, nodeId = Some 112, fabricId = Some 2\<rparr> else None),
      Rcac_verify = (\<lambda>r. if rcac_tlv r = [0x52] then None else Some ''bad signature''),
      Icac_verify = (\<lambda>c r. if icac_tlv c = [0x49] then None else Some ''bad issuer''),
      Noc_verify = (\<lambda>n r c. None),
      readFile =
        (\<lambda>p. if p = ''chip.json'' then Some ''{''
              else if p = ''empty.json'' then Some ''{}''
              else if p = ''null.json'' then Some ''null'' else None),
      JSON_parse =
        (\<lambda>s. if s = ''{}'' then Some (ParsedFile \<lparr>sdk_config = None, repl_config = None\<rparr>)
              else if s = ''null'' then Some ParsedNull else None)\<rparr>"

section \<open>Running the model\<close>

lemmas eval_defs =
  saveData_def loadData_def loadParsed_def sdkEntries_def clearState_def clearData_def
  loadEntry_def isIgnoredKey_def toNumber_def numeral_eq_enat one_enat_def zero_enat_def
  objSet_def isArrayIndex_def isDecDigit_def indexToString_def digitsOf_def objectKeysCount_def
  IGNORED_KEYS_def startsWith_def slice_def parseFabricKey_def parseGlobalKey_def
  matchFabricKey_def isHexDigit_def isLineTerminator_def parseIntHex_def digitsValue_def
  digitValue_def getOrCreateFabric_def getFabric_def newFabric_def modifyFabric_def
  decodeEntry_def saveFabric_def fabricPrefix_def putEntry_def natToString.simps
  decimalDigit_def Let_def

lemmas sample_defs = sample_env_def sample_base64_def newChipConfigData_def

lemmas verify_defs =
  verifyCertificateChain_def verifyNocStep_def initialResult_def getRcac_def getIcac_def
  getNoc_def getRcacCalls_def getIcacCalls_def getNocCalls_def

section \<open>Round trip and key retention\<close>

text \<open>
  Claim C1 says that load, save, load reproduces the key set of every well-formed file,
  keys with hexadecimal fabric segments such as \<^verbatim>\<open>f/A/n\<close> included. The code does not:
  \<open>parseFabricKey\<close> reads the segment in base 16 and \<open>saveData\<close> writes the index back
  in base 10. For the file whose only key is \<^verbatim>\<open>f/A/n\<close> and for every environment, the
  saved file has the single key \<^verbatim>\<open>f/10/n\<close>, and loading that file yields fabric 16
  where the first load had fabric 10.
\<close>

theorem roundtrip_hex_segment_diverges:
  "saveData e (loadData e \<lparr>sdk_config = Some [(''f/A/n'', JStr v)], repl_config = None\<rparr> st)
     = \<lparr>sdk_config = Some [(''f/10/n'', JStr v)], repl_config = None\<rparr>
   \<and> getFabricIndices (loadData e \<lparr>sdk_config = Some [(''f/A/n'', JStr v)], repl_config = None\<rparr> st)
     = [10]
   \<and> getFabricIndices
       (loadData e
          (saveData e (loadData e \<lparr>sdk_config = Some [(''f/A/n'', JStr v)], repl_config = None\<rparr> st)) st')
     = [16]"
  by (simp add: eval_defs getFabricIndices_def)

text \<open>
  Claim C2 says that no key is dropped, and that a \<^verbatim>\<open>g/\<close> key with an unknown tag or an
  \<^verbatim>\<open>f/\<close> key outside the fabric pattern lands in the generic bucket. In the code
  \<open>parseGlobalKey\<close> has no final branch and \<open>parseFabricKey\<close> returns when the pattern does
  not match: loading a file with the keys \<^verbatim>\<open>g/xyz\<close> and \<^verbatim>\<open>f/xyz/n\<close> into a new
  instance leaves every bucket empty, for every environment.
\<close>

theorem unrecognised_prefixed_keys_dropped:
  "loadData e \<lparr>sdk_config = Some [(''g/xyz'', JStr v), (''f/xyz/n'', JStr w)], repl_config = None\<rparr>
     newChipConfigData = newChipConfigData"
  by (simp add: eval_defs newChipConfigData_def)

section \<open>Hard failures of load\<close>

text \<open>
  Claim C10: when the content of the file is not valid JSON, \<^verbatim>\<open>load\<close> throws and leaves
  the whole model as it was; the same holds when the file cannot be read; and whenever
  \<^verbatim>\<open>load\<close> changes the state at all, the file was read and its content parsed.
\<close>

theorem load_hard_failure_atomic:
  "(readFile e filePath = None \<longrightarrow> load e filePath st = (Inl ReadError, st))
   \<and> (readFile e filePath = Some content \<and> JSON_parse e content = None
        \<longrightarrow> load e filePath st = (Inl JsonSyntaxError, st))
   \<and> (snd (load e filePath st) \<noteq> st
        \<longrightarrow> (\<exists>content p. readFile e filePath = Some content \<and> JSON_parse e content = Some p))"
  by (auto simp: load_def split: option.splits)

theorem load_hard_failure_atomic_witness:
  "readFile sample_env ''chip.json'' = Some ''{'' \<and> JSON_parse sample_env ''{'' = None
   \<and> load sample_env ''chip.json''
        (newChipConfigData\<lparr>generic := [(''ExampleKey'', JStr ''ZXhhbXBsZQ=='')]\<rparr>)
      = (Inl JsonSyntaxError, newChipConfigData\<lparr>generic := [(''ExampleKey'', JStr ''ZXhhbXBsZQ=='')]\<rparr>)
   \<and> readFile sample_env ''missing.json'' = None
   \<and> load sample_env ''missing.json''
        (newChipConfigData\<lparr>generic := [(''ExampleKey'', JStr ''ZXhhbXBsZQ=='')]\<rparr>)
      = (Inl ReadError, newChipConfigData\<lparr>generic := [(''ExampleKey'', JStr ''ZXhhbXBsZQ=='')]\<rparr>)"
proof -
  let ?st = "newChipConfigData\<lparr>generic := [(''ExampleKey'', JStr ''ZXhhbXBsZQ=='')]\<rparr>"
  have h: "readFile sample_env ''chip.json'' = Some ''{'' \<and> JSON_parse sample_env ''{'' = None"
    by (simp add: sample_env_def)
  have h': "readFile sample_env ''missing.json'' = None"
    by (simp add: sample_env_def)
  from load_hard_failure_atomic[of sample_env "''chip.json''" ?st "''{''"] h
  have a: "load sample_env ''chip.json'' ?st = (Inl JsonSyntaxError, ?st)" by blast
  from load_hard_failure_atomic[of sample_env "''missing.json''" ?st] h'
  have b: "load sample_env ''missing.json'' ?st = (Inl ReadError, ?st)" by blast
  show ?thesis using h h' a b by blast
qed

text \<open>
  The boundary of the claim: \<^verbatim>\<open>null\<close> is valid JSON, so the state is cleared before the
  first property access throws.
\<close>

lemma load_null_clears_then_throws:
  "readFile e filePath = Some content \<Longrightarrow> JSON_parse e content = Some ParsedNull
     \<Longrightarrow> load e filePath st = (Inl TypeError, clearData st)"
  by (simp add: load_def)

section \<open>Certificate chain verification\<close>

text \<open>
  Claim C8: when the fabric does not exist, has no RCAC bytes, or its RCAC bytes do not
  decode, \<^verbatim>\<open>verifyCertificateChain\<close> returns \<^verbatim>\<open>{valid: false, error: "RCAC not found or invalid"}\<close>
  with no validity flag set, and the only call into the certificate library it can have
  made is the RCAC decode: no ICAC or NOC decode and no verification.
\<close>

theorem rcac_missing_returns_immediately:
  assumes "getFabric st i = None
           \<or> (\<exists>f. getFabric st i = Some f \<and> rcac f = None)
           \<or> (\<exists>f en. getFabric st i = Some f \<and> rcac f = Some en \<and> Rcac_fromTlv e (raw en) = None)"
  shows "fst (verifyCertificateChain e st i) =
           \<lparr>valid = False, rcacValid = None, icacValid = None, nocValid = None,
            error = Some ''RCAC not found or invalid''\<rparr>
       \<and> set (snd (verifyCertificateChain e st i)) \<subseteq> {RcacFromTlv}"
  using assms by (auto simp: verify_defs split: option.splits)

theorem rcac_missing_returns_immediately_witness:
  "getFabric (loadData sample_env \<lparr>sdk_config = Some [(''f/1/n'', JStr ''Tg=='')], repl_config = None\<rparr>
       newChipConfigData) 1 \<noteq> None
   \<and> fst (verifyCertificateChain sample_env
        (loadData sample_env \<lparr>sdk_config = Some [(''f/1/n'', JStr ''Tg=='')], repl_config = None\<rparr>
           newChipConfigData) 1)
      = \<lparr>valid = False, rcacValid = None, icacValid = None, nocValid = None,
         error = Some ''RCAC not found or invalid''\<rparr>"
proof -
  let ?S = "loadData sample_env \<lparr>sdk_config = Some [(''f/1/n'', JStr ''Tg=='')], repl_config = None\<rparr>
       newChipConfigData"
  have h: "\<exists>f. getFabric ?S 1 = Some f \<and> rcac f = None" by (simp add: eval_defs sample_defs)
  then have "getFabric ?S 1 \<noteq> None" by auto
  moreover from h have "getFabric ?S 1 = None
           \<or> (\<exists>f. getFabric ?S 1 = Some f \<and> rcac f = None)
           \<or> (\<exists>f en. getFabric ?S 1 = Some f \<and> rcac f = Some en
                 \<and> Rcac_fromTlv sample_env (raw en) = None)"
    by blast
  from rcac_missing_returns_immediately[OF this]
  have "fst (verifyCertificateChain sample_env ?S 1) =
           \<lparr>valid = False, rcacValid = None, icacValid = None, nocValid = None,
            error = Some ''RCAC not found or invalid''\<rparr>" by blast
  ultimately show ?thesis by blast
qed

text \<open>
  Claim C3 says that a failing RCAC self-verification is reported even when the NOC of the
  fabric is missing or undecodable. The code decodes all three certificates first and
  returns \<^verbatim>\<open>"NOC not found or invalid"\<close> before it verifies anything. As amended: when
  the RCAC and the NOC both decode and the RCAC self-verification fails with a cause, the
  result is \<^verbatim>\<open>{valid: false, rcacValid: false, error: "RCAC verification failed: <cause>"}\<close>
  and neither the ICAC nor the NOC is verified; when the RCAC decodes and the NOC is missing
  or undecodable, the result is \<^verbatim>\<open>{valid: false, error: "NOC not found or invalid"}\<close> and
  the RCAC is not verified.
\<close>

theorem rcac_verification_failure_reported:
  "(getRcac e st i = Some rc \<and> getNoc e st i = Some nc \<and> Rcac_verify e rc = Some cause
      \<longrightarrow> fst (verifyCertificateChain e st i) =
            \<lparr>valid = False, rcacValid = Some False, icacValid = None, nocValid = None,
             error = Some (''RCAC verification failed: '' @ cause)\<rparr>
        \<and> IcacVerify \<notin> set (snd (verifyCertificateChain e st i))
        \<and> NocVerify \<notin> set (snd (verifyCertificateChain e st i)))
   \<and> (getRcac e st i = Some rc \<and> getNoc e st i = None
      \<longrightarrow> fst (verifyCertificateChain e st i) =
            \<lparr>valid = False, rcacValid = None, icacValid = None, nocValid = None,
             error = Some ''NOC not found or invalid''\<rparr>
        \<and> RcacVerify \<notin> set (snd (verifyCertificateChain e st i)))"
  by (auto simp: verifyCertificateChain_def initialResult_def getRcacCalls_def getIcacCalls_def
        getNocCalls_def Let_def split: option.splits)

text \<open>
  The claim as stated fails on a fabric that has only an RCAC whose self-verification
  would fail: the RCAC decodes, the NOC is missing, and the result carries the NOC error
  and no \<^verbatim>\<open>rcacValid\<close> flag; the RCAC was decoded and never verified.
\<close>

theorem rcac_failure_masked_by_missing_noc:
  "getRcac sample_env
     (loadData sample_env \<lparr>sdk_config = Some [(''f/1/r'', JStr ''Uw=='')], repl_config = None\<rparr>
        newChipConfigData) 1
     = Some \<lparr>rcac_tlv = [0x53], rcacId = Some 1, ellipticCurvePublicKey = [4]\<rparr>
   \<and> Rcac_verify sample_env \<lparr>rcac_tlv = [0x53], rcacId = Some 1, ellipticCurvePublicKey = [4]\<rparr>
     = Some ''bad signature''
   \<and> verifyCertificateChain sample_env
     (loadData sample_env \<lparr>sdk_config = Some [(''f/1/r'', JStr ''Uw=='')], repl_config = None\<rparr>
        newChipConfigData) 1
     = (\<lparr>valid = False, rcacValid = None, icacValid = None, nocValid = None,
         error = Some ''NOC not found or invalid''\<rparr>, [RcacFromTlv])"
  by (simp add: eval_defs sample_defs verify_defs)

theorem rcac_verification_failure_reported_witness:
  "getRcac sample_env
     (loadData sample_env
        \<lparr>sdk_config = Some [(''f/1/r'', JStr ''Uw==''), (''f/1/n'', JStr ''Tg=='')], repl_config = None\<rparr>
        newChipConfigData) 1
     = Some \<lparr>rcac_tlv = [0x53], rcacId = Some 1, ellipticCurvePublicKey = [4]\<rparr>
   \<and> getNoc sample_env
     (loadData sample_env
        \<lparr>sdk_config = Some [(''f/1/r'', JStr ''Uw==''), (''f/1/n'', JStr ''Tg=='')], repl_config = None\<rparr>
        newChipConfigData) 1
     = Some \<lparr>noc_tlv = [0x4E], nodeId = Some 112, fabricId = Some 2\<rparr>
   \<and> Rcac_verify sample_env \<lparr>rcac_tlv = [0x53], rcacId = Some 1, ellipticCurvePublicKey = [4]\<rparr>
     = Some ''bad signature''
   \<and> fst (verifyCertificateChain sample_env
     (loadData sample_env
        \<lparr>sdk_config = Some [(''f/1/r'', JStr ''Uw==''), (''f/1/n'', JStr ''Tg=='')], repl_config = None\<rparr>
        newChipConfigData) 1)
     = \<lparr>valid = False, rcacValid = Some False, icacValid = None, nocValid = None,
         error = Some ''RCAC verification failed: bad signature''\<rparr>
   \<and> getNoc sample_env
     (loadData sample_env \<lparr>sdk_config = Some [(''f/1/r'', JStr ''Ug=='')], repl_config = None\<rparr>
        newChipConfigData) 1 = None
   \<and> fst (verifyCertificateChain sample_env
     (loadData sample_env \<lparr>sdk_config = Some [(''f/1/r'', JStr ''Ug=='')], repl_config = None\<rparr>
        newChipConfigData) 1)
     = \<lparr>valid = False, rcacValid = None, icacValid = None, nocValid = None,
         error = Some ''NOC not found or invalid''\<rparr>"
proof -
  let ?T = "loadData sample_env \<lparr>sdk_config = Some [(''f/1/r'', JStr ''Ug=='')], repl_config = None\<rparr>
        newChipConfigData"
  let ?rt = "\<lparr>rcac_tlv = [0x52], rcacId = Some 1, ellipticCurvePublicKey = [4]\<rparr>"
  have t1: "getRcac sample_env ?T 1 = Some ?rt" by (simp add: eval_defs sample_defs getRcac_def)
  have t2: "getNoc sample_env ?T 1 = None" by (simp add: eval_defs sample_defs getNoc_def)
  from rcac_verification_failure_reported[of sample_env ?T 1 ?rt] t1 t2
  have t3: "fst (verifyCertificateChain sample_env ?T 1) =
            \<lparr>valid = False, rcacValid = None, icacValid = None, nocValid = None,
             error = Some ''NOC not found or invalid''\<rparr>" by blast
  let ?S = "loadData sample_env
        \<lparr>sdk_config = Some [(''f/1/r'', JStr ''Uw==''), (''f/1/n'', JStr ''Tg=='')], repl_config = None\<rparr>
        newChipConfigData"
  let ?rc = "\<lparr>rcac_tlv = [0x53], rcacId = Some 1, ellipticCurvePublicKey = [4]\<rparr>"
  let ?nc = "\<lparr>noc_tlv = [0x4E], nodeId = Some 112, fabricId = Some 2\<rparr>"
  have h1: "getRcac sample_env ?S 1 = Some ?rc" by (simp add: eval_defs sample_defs getRcac_def)
  have h2: "getNoc sample_env ?S 1 = Some ?nc" by (simp add: eval_defs sample_defs getNoc_def)
  have h3: "Rcac_verify sample_env ?rc = Some ''bad signature''" by (simp add: sample_env_def)
  from rcac_verification_failure_reported[of sample_env ?S 1 ?rc ?nc "''bad signature''"] h1 h2 h3
  have "fst (verifyCertificateChain sample_env ?S 1) =
            \<lparr>valid = False, rcacValid = Some False, icacValid = None, nocValid = None,
             error = Some (''RCAC verification failed: '' @ ''bad signature'')\<rparr>" by blast
  then show ?thesis using h1 h2 h3 t2 t3 by simp
qed

text \<open>
  Claim C4 says that ICAC bytes that are present but fail to decode, or fail verification,
  give \<^verbatim>\<open>{valid: false, icacValid: false, error: "ICAC verification failed: <cause>"}\<close>, and
  that verification is skipped only when the bytes are absent. In the code \<^verbatim>\<open>getIcac\<close>
  turns a decode failure into \<^verbatim>\<open>undefined\<close>, and the verifier runs the ICAC step on
  \<^verbatim>\<open>if (icac)\<close>. As amended: when the RCAC and the NOC decode, the RCAC verifies, and
  the ICAC decodes but its verification against the RCAC fails with a cause, the result is
  \<^verbatim>\<open>{valid: false, rcacValid: true, icacValid: false, error: "ICAC verification failed: <cause>"}\<close>
  and the NOC is not verified; when \<^verbatim>\<open>getIcac\<close> yields no certificate (the bytes are
  absent or do not decode), the ICAC is not verified, \<^verbatim>\<open>icacValid\<close> stays unset, and the
  result is valid exactly when the NOC verifies against the RCAC alone; the ICAC decode is
  attempted only when the bytes are present.
\<close>

theorem icac_verification_failure_reported:
  "(getRcac e st i = Some rc \<and> getNoc e st i = Some nc \<and> Rcac_verify e rc = None
      \<and> getIcac e st i = Some ic \<and> Icac_verify e ic rc = Some cause
      \<longrightarrow> fst (verifyCertificateChain e st i) =
            \<lparr>valid = False, rcacValid = Some True, icacValid = Some False, nocValid = None,
             error = Some (''ICAC verification failed: '' @ cause)\<rparr>
        \<and> NocVerify \<notin> set (snd (verifyCertificateChain e st i)))
   \<and> (getRcac e st i = Some rc \<and> getNoc e st i = Some nc \<and> Rcac_verify e rc = None
      \<and> getIcac e st i = None
      \<longrightarrow> icacValid (fst (verifyCertificateChain e st i)) = None
        \<and> IcacVerify \<notin> set (snd (verifyCertificateChain e st i))
        \<and> valid (fst (verifyCertificateChain e st i)) = (Noc_verify e nc rc None = None))
   \<and> (getFabric st i = Some f \<and> icac f = None
      \<longrightarrow> IcacFromTlv \<notin> set (snd (verifyCertificateChain e st i)))"
  by (auto simp: verify_defs Let_def split: option.splits)

text \<open>
  The claim as stated fails on a fabric whose ICAC bytes are present and do not decode,
  next to a good RCAC and NOC: the ICAC decode is attempted, no ICAC verification follows,
  and the chain is reported valid with \<^verbatim>\<open>icacValid\<close> unset.
\<close>

theorem undecodable_icac_is_skipped:
  "map_option icac (getFabric
     (loadData sample_env
        \<lparr>sdk_config = Some [(''f/1/r'', JStr ''Ug==''), (''f/1/i'', JStr ''aW52YWxpZA==''), (''f/1/n'', JStr ''Tg=='')],
         repl_config = None\<rparr> newChipConfigData) 1)
     = Some (Some \<lparr>raw = [0x69, 0x6E, 0x76, 0x61, 0x6C, 0x69, 0x64], base64 = JStr ''aW52YWxpZA==''\<rparr>)
   \<and> Icac_fromTlv sample_env [0x69, 0x6E, 0x76, 0x61, 0x6C, 0x69, 0x64] = None
   \<and> verifyCertificateChain sample_env
     (loadData sample_env
        \<lparr>sdk_config = Some [(''f/1/r'', JStr ''Ug==''), (''f/1/i'', JStr ''aW52YWxpZA==''), (''f/1/n'', JStr ''Tg=='')],
         repl_config = None\<rparr> newChipConfigData) 1
     = (\<lparr>valid = True, rcacValid = Some True, icacValid = None, nocValid = Some True, error = None\<rparr>,
        [RcacFromTlv, IcacFromTlv, NocFromTlv, RcacVerify, NocVerify])"
  by (simp add: eval_defs sample_defs verify_defs)

theorem icac_verification_failure_reported_witness:
  "getIcac sample_env
     (loadData sample_env
        \<lparr>sdk_config = Some [(''f/1/r'', JStr ''Ug==''), (''f/1/i'', JStr ''Sg==''), (''f/1/n'', JStr ''Tg=='')],
         repl_config = None\<rparr> newChipConfigData) 1 = Some \<lparr>icac_tlv = [0x4A]\<rparr>
   \<and> Icac_verify sample_env \<lparr>icac_tlv = [0x4A]\<rparr>
        \<lparr>rcac_tlv = [0x52], rcacId = Some 1, ellipticCurvePublicKey = [4]\<rparr> = Some ''bad issuer''
   \<and> fst (verifyCertificateChain sample_env
     (loadData sample_env
        \<lparr>sdk_config = Some [(''f/1/r'', JStr ''Ug==''), (''f/1/i'', JStr ''Sg==''), (''f/1/n'', JStr ''Tg=='')],
         repl_config = None\<rparr> newChipConfigData) 1)
     = \<lparr>valid = False, rcacValid = Some True, icacValid = Some False, nocValid = None,
        error = Some ''ICAC verification failed: bad issuer''\<rparr>
   \<and> map_option icac (getFabric
     (loadData sample_env
        \<lparr>sdk_config = Some [(''f/1/r'', JStr ''Ug==''), (''f/1/n'', JStr ''Tg=='')], repl_config = None\<rparr>
        newChipConfigData) 1) = Some None
   \<and> valid (fst (verifyCertificateChain sample_env
     (loadData sample_env
        \<lparr>sdk_config = Some [(''f/1/r'', JStr ''Ug==''), (''f/1/n'', JStr ''Tg=='')], repl_config = None\<rparr>
        newChipConfigData) 1))
   \<and> icacValid (fst (verifyCertificateChain sample_env
     (loadData sample_env
        \<lparr>sdk_config = Some [(''f/1/r'', JStr ''Ug==''), (''f/1/n'', JStr ''Tg=='')], repl_config = None\<rparr>
        newChipConfigData) 1)) = None"
proof -
  let ?T = "loadData sample_env
        \<lparr>sdk_config = Some [(''f/1/r'', JStr ''Ug==''), (''f/1/n'', JStr ''Tg=='')], repl_config = None\<rparr>
        newChipConfigData"
  let ?rt = "\<lparr>rcac_tlv = [0x52], rcacId = Some 1, ellipticCurvePublicKey = [4]\<rparr>"
  let ?nt = "\<lparr>noc_tlv = [0x4E], nodeId = Some 112, fabricId = Some 2\<rparr>"
  have t1: "getRcac sample_env ?T 1 = Some ?rt" by (simp add: eval_defs sample_defs getRcac_def)
  have t2: "getNoc sample_env ?T 1 = Some ?nt" by (simp add: eval_defs sample_defs getNoc_def)
  have t3: "Rcac_verify sample_env ?rt = None" by (simp add: sample_env_def)
  have t4: "\<exists>f. getFabric ?T 1 = Some f \<and> icac f = None" by (simp add: eval_defs sample_defs)
  then obtain ft where t5: "getFabric ?T 1 = Some ft" "icac ft = None" by blast
  then have t5': "getIcac sample_env ?T 1 = None" by (simp add: getIcac_def)
  have t6: "Noc_verify sample_env ?nt ?rt None = None" by (simp add: sample_env_def)
  from icac_verification_failure_reported[of sample_env ?T 1 ?rt ?nt _ _ ft] t1 t2 t3 t5 t5' t6
  have t7: "icacValid (fst (verifyCertificateChain sample_env ?T 1)) = None
          \<and> valid (fst (verifyCertificateChain sample_env ?T 1))" by blast
  from t5 have t8: "map_option icac (getFabric ?T 1) = Some None" by simp
  let ?S = "loadData sample_env
        \<lparr>sdk_config = Some [(''f/1/r'', JStr ''Ug==''), (''f/1/i'', JStr ''Sg==''), (''f/1/n'', JStr ''Tg=='')],
         repl_config = None\<rparr> newChipConfigData"
  let ?rc = "\<lparr>rcac_tlv = [0x52], rcacId = Some 1, ellipticCurvePublicKey = [4]\<rparr>"
  let ?nc = "\<lparr>noc_tlv = [0x4E], nodeId = Some 112, fabricId = Some 2\<rparr>"
  let ?ic = "\<lparr>icac_tlv = [0x4A]\<rparr>"
  have h1: "getRcac sample_env ?S 1 = Some ?rc" by (simp add: eval_defs sample_defs getRcac_def)
  have h2: "getNoc sample_env ?S 1 = Some ?nc" by (simp add: eval_defs sample_defs getNoc_def)
  have h3: "Rcac_verify sample_env ?rc = None" by (simp add: sample_env_def)
  have h4: "getIcac sample_env ?S 1 = Some ?ic" by (simp add: eval_defs sample_defs getIcac_def)
  have h5: "Icac_verify sample_env ?ic ?rc = Some ''bad issuer''" by (simp add: sample_env_def)
  from icac_verification_failure_reported[of sample_env ?S 1 ?rc ?nc ?ic "''bad issuer''"]
       h1 h2 h3 h4 h5
  have "fst (verifyCertificateChain sample_env ?S 1) =
            \<lparr>valid = False, rcacValid = Some True, icacValid = Some False, nocValid = None,
             error = Some (''ICAC verification failed: '' @ ''bad issuer'')\<rparr>" by blast
  then show ?thesis using h4 h5 t7 t8 by simp
qed

section \<open>Config projection\<close>

lemma find_SomeD: "find P xs = Some x \<Longrightarrow> P x \<and> x \<in> set xs"
  by (induction xs) (auto split: if_splits)

lemma getFabricConfig_Some_iff:
  "getFabricConfig e st i = Some cfg \<longleftrightarrow>
     (\<exists>fabric rcacEntry nocEntry rc nc nid fid rid md ipkKeySet ipkEntry.
        getFabric st i = Some fabric
        \<and> rcac fabric = Some rcacEntry \<and> Rcac_fromTlv e (raw rcacEntry) = Some rc
        \<and> noc fabric = Some nocEntry \<and> Noc_fromTlv e (raw nocEntry) = Some nc
        \<and> Noc.nodeId nc = Some nid \<and> Noc.fabricId nc = Some fid
        \<and> rcacId rc = Some rid
        \<and> metadataDecoded fabric = Some md
        \<and> map_of (keysDecoded fabric) (Num 0) = Some ipkKeySet
        \<and> find (\<lambda>k. length (key k) = 16) (GroupKeySet.keys ipkKeySet) = Some ipkEntry
        \<and> cfg = \<lparr>fabricIndex = i, fabricId = fid, nodeId = nid, rootNodeId = rid,
                  rootVendorId = vendorId md, rootCert = raw rcacEntry,
                  rootPublicKey = ellipticCurvePublicKey rc,
                  identityProtectionKey = key ipkEntry,
                  intermediateCACert = map_option raw (icac fabric),
                  operationalCert = raw nocEntry,
                  label = FabricMetadata.label md\<rparr>)"
  by (auto simp: getFabricConfig_def getRcac_def getNoc_def split: option.splits if_splits)

text \<open>
  Claim C9: \<^verbatim>\<open>getFabricConfig(index)\<close> returns a record exactly when the fabric exists,
  its RCAC and NOC bytes are present and decode, the NOC subject has a node id and a fabric
  id, the RCAC subject has an RCAC id, the fabric metadata is decoded, and the decoded key
  set of slot 0 has an entry whose key is 16 bytes long; the record is then filled from
  these values (the identity protection key is the first such entry, and has 16 bytes).
  In every other case the result is \<^verbatim>\<open>undefined\<close>.
\<close>

theorem getFabricConfig_all_or_nothing:
  "(getFabricConfig e st i = Some cfg \<longleftrightarrow>
     (\<exists>fabric rcacEntry nocEntry rc nc nid fid rid md ipkKeySet ipkEntry.
        getFabric st i = Some fabric
        \<and> rcac fabric = Some rcacEntry \<and> Rcac_fromTlv e (raw rcacEntry) = Some rc
        \<and> noc fabric = Some nocEntry \<and> Noc_fromTlv e (raw nocEntry) = Some nc
        \<and> Noc.nodeId nc = Some nid \<and> Noc.fabricId nc = Some fid
        \<and> rcacId rc = Some rid
        \<and> metadataDecoded fabric = Some md
        \<and> map_of (keysDecoded fabric) (Num 0) = Some ipkKeySet
        \<and> find (\<lambda>k. length (key k) = 16) (GroupKeySet.keys ipkKeySet) = Some ipkEntry
        \<and> cfg = \<lparr>fabricIndex = i, fabricId = fid, nodeId = nid, rootNodeId = rid,
                  rootVendorId = vendorId md, rootCert = raw rcacEntry,
                  rootPublicKey = ellipticCurvePublicKey rc,
                  identityProtectionKey = key ipkEntry,
                  intermediateCACert = map_option raw (icac fabric),
                  operationalCert = raw nocEntry,
                  label = FabricMetadata.label md\<rparr>))
   \<and> (getFabricConfig e st i = Some cfg \<longrightarrow> length (identityProtectionKey cfg) = 16)"
proof -
  have "length (identityProtectionKey cfg) = 16" if "getFabricConfig e st i = Some cfg"
    using that unfolding getFabricConfig_Some_iff by (auto dest: find_SomeD)
  then show ?thesis using getFabricConfig_Some_iff[of e st i cfg] by blast
qed

theorem getFabricConfig_all_or_nothing_witness:
  "getFabricConfig sample_env
     (loadData sample_env
        \<lparr>sdk_config = Some [(''f/1/r'', JStr ''Ug==''), (''f/1/n'', JStr ''Tg==''), (''f/1/m'', JStr ''FSUASxMsAQAY''),
                            (''f/1/k/0'', JStr ''Sw=='')],
         repl_config = None\<rparr> newChipConfigData) 1
     = Some \<lparr>fabricIndex = 1, fabricId = 2, nodeId = 112, rootNodeId = 1, rootVendorId = 4939,
             rootCert = [0x52], rootPublicKey = [4], identityProtectionKey = replicate 16 7,
             intermediateCACert = None, operationalCert = [0x4E], label = []\<rparr>
   \<and> length (replicate 16 (7::8 word)) = 16"
proof -
  let ?S = "loadData sample_env
        \<lparr>sdk_config = Some [(''f/1/r'', JStr ''Ug==''), (''f/1/n'', JStr ''Tg==''), (''f/1/m'', JStr ''FSUASxMsAQAY''),
                            (''f/1/k/0'', JStr ''Sw=='')],
         repl_config = None\<rparr> newChipConfigData"
  let ?cfg = "\<lparr>fabricIndex = 1, fabricId = 2, nodeId = 112, rootNodeId = 1, rootVendorId = 4939,
             rootCert = [0x52], rootPublicKey = [4], identityProtectionKey = replicate 16 7,
             intermediateCACert = None, operationalCert = [0x4E], label = []\<rparr>"
  have h: "getFabricConfig sample_env ?S 1 = Some ?cfg"
    by (simp add: eval_defs sample_defs getFabricConfig_def getRcac_def getNoc_def parseInt10_def
          isWhiteSpace_def isDecDigit_def)
  from getFabricConfig_all_or_nothing[of sample_env ?S 1 ?cfg] h
  have "length (identityProtectionKey ?cfg) = 16" by blast
  with h show ?thesis by simp
qed

section \<open>The plain object of save\<close>

text \<open>
  \<^verbatim>\<open>save\<close> collects the keys in a plain object, which creates no property for the key
  \<^verbatim>\<open>__proto__\<close> and enumerates its array-index keys first, in numeric order.
\<close>

lemma objSet_examples:
  "objSet ''__proto__'' v cfg = cfg"
  "objSet ''9'' v [(''10'', a), (''g/fidx'', b)] = [(''9'', v), (''10'', a), (''g/fidx'', b)]"
  "objSet ''10'' v [(''9'', a), (''g/fidx'', b)] = [(''9'', a), (''10'', v), (''g/fidx'', b)]"
  "objSet ''07'' v [(''9'', a), (''g/fidx'', b)] = [(''9'', a), (''g/fidx'', b), (''07'', v)]"
  "objSet ''9'' v [(''9'', a), (''g/fidx'', b)] = [(''9'', v), (''g/fidx'', b)]"
  by (simp_all add: objSet_def isArrayIndex_def isDecDigit_def digitsValue_def digitValue_def)

lemma save_drops_proto_key:
  "sdk_config (saveData e (newChipConfigData\<lparr>generic := [(''__proto__'', JStr ''dGVzdA==''), (''7'', JStr ''dGVzdA==''), (''ExampleKey'', JStr ''dGVzdA=='')]\<rparr>))
     = Some [(''7'', JStr ''dGVzdA==''), (''ExampleKey'', JStr ''dGVzdA=='')]"
  by (simp add: saveData_def putEntry_def newChipConfigData_def objSet_def isArrayIndex_def
        isDecDigit_def digitsValue_def digitValue_def Let_def)

section \<open>The fabric aggregator and the loop of load\<close>

lemma getFabric_getOrCreateFabric:
  "getFabric (getOrCreateFabric i st) j =
     (if j = i then Some (case getFabric st i of Some f \<Rightarrow> f | None \<Rightarrow> newFabric i)
      else getFabric st j)"
  by (auto simp: getOrCreateFabric_def getFabric_def map_add_def split: option.splits)

lemma getFabric_modifyFabric:
  "getFabric (modifyFabric i g st) j =
     (if j = i then map_option g (getFabric st i) else getFabric st j)"
  by (auto simp: modifyFabric_def getFabric_def AList.map_of_map_entry split: option.splits)

lemma getOrCreateFabric_fields [simp]:
  "generic (getOrCreateFabric i st) = generic st"
  "ignored (getOrCreateFabric i st) = ignored st"
  "globals (getOrCreateFabric i st) = globals st"
  "sessions (getOrCreateFabric i st) = sessions st"
  "replConfig (getOrCreateFabric i st) = replConfig st"
  by (simp_all add: getOrCreateFabric_def split: option.splits)

lemma modifyFabric_fields [simp]:
  "generic (modifyFabric i g st) = generic st"
  "ignored (modifyFabric i g st) = ignored st"
  "globals (modifyFabric i g st) = globals st"
  "sessions (modifyFabric i g st) = sessions st"
  "replConfig (modifyFabric i g st) = replConfig st"
  by (simp_all add: modifyFabric_def)

lemma getFabric_update_other [simp]:
  "getFabric (st\<lparr>generic := a\<rparr>) = getFabric st"
  "getFabric (st\<lparr>ignored := a\<rparr>) = getFabric st"
  "getFabric (st\<lparr>globals := b\<rparr>) = getFabric st"
  "getFabric (st\<lparr>sessions := c\<rparr>) = getFabric st"
  by (simp_all add: getFabric_def fun_eq_iff)

subsection \<open>The loop and its exceptions\<close>

lemma loadEntries_returned:
  "fst (loadEntries e kvs st) = Inr () \<Longrightarrow>
     snd (loadEntries e kvs st) = fold (loadEntryState e) kvs st"
proof (induction kvs arbitrary: st)
  case Nil
  show ?case by simp
next
  case (Cons kv kvs)
  obtain r st' where le: "loadEntry e kv st = (r, st')" by (cases "loadEntry e kv st")
  show ?case
  proof (cases r)
    case (Inl err)
    with le Cons.prems show ?thesis by simp
  next
    case (Inr u)
    with le Cons show ?thesis by (simp add: loadEntryState_def)
  qed
qed

lemma loadEntries_prefix:
  "\<exists>n. snd (loadEntries e kvs st) = fold (loadEntryState e) (take n kvs) st"
proof (induction kvs arbitrary: st)
  case Nil
  show ?case by simp
next
  case (Cons kv kvs)
  obtain r st' where le: "loadEntry e kv st = (r, st')" by (cases "loadEntry e kv st")
  show ?case
  proof (cases r)
    case (Inl err)
    with le have "snd (loadEntries e (kv # kvs) st)
        = fold (loadEntryState e) (take (Suc 0) (kv # kvs)) st"
      by (simp add: loadEntryState_def)
    then show ?thesis by blast
  next
    case (Inr u)
    from Cons.IH[of st'] obtain n where
      "snd (loadEntries e kvs st') = fold (loadEntryState e) (take n kvs) st'" by blast
    with le Inr have "snd (loadEntries e (kv # kvs) st)
        = fold (loadEntryState e) (take (Suc n) (kv # kvs)) st"
      by (simp add: loadEntryState_def)
    then show ?thesis by blast
  qed
qed

lemma decodeEntry_string:
  "decodeEntry e (JStr b) = Some \<lparr>raw = Buffer_from_base64 e b, base64 = JStr b\<rparr>"
  by (simp add: decodeEntry_def)

lemma loadEntry_string_returns: "isString (snd kv) \<Longrightarrow> fst (loadEntry e kv st) = Inr ()"
  by (cases "snd kv")
     (simp_all add: loadEntry_def parseFabricKey_def parseGlobalKey_def Let_def decodeEntry_string
        split: option.splits prod.splits)

lemma loadEntries_strings_return:
  "\<forall>kv \<in> set kvs. isString (snd kv) \<Longrightarrow> fst (loadEntries e kvs st) = Inr ()"
proof (induction kvs arbitrary: st)
  case Nil
  show ?case by simp
next
  case (Cons kv kvs)
  then have "fst (loadEntry e kv st) = Inr ()" by (simp add: loadEntry_string_returns)
  then obtain st' where "loadEntry e kv st = (Inr (), st')" by (cases "loadEntry e kv st") auto
  with Cons show ?case by simp
qed

lemma loadParsed_strings_return:
  "\<forall>kv \<in> set (sdkEntries d). isString (snd kv) \<Longrightarrow> fst (loadParsed e d st) = Inr ()"
  by (simp add: loadParsed_def loadEntries_strings_return)

lemma loadData_returned:
  "fst (loadParsed e d st) = Inr () \<Longrightarrow>
     loadData e d st = fold (loadEntryState e) (sdkEntries d) (clearState d st)"
  by (simp add: loadData_def loadParsed_def loadEntries_returned)

lemma fold_preserves:
  assumes "\<And>kv s. fst kv \<noteq> k \<Longrightarrow> obs (f kv s) = obs s" and "k \<notin> fst ` set kvs"
  shows "obs (fold f kvs s) = obs s"
  using assms(2) by (induction kvs arbitrary: s) (auto simp: assms(1))

lemma distinct_key_split:
  assumes "distinct (map fst kvs)" and "(k, v) \<in> set kvs"
  shows "\<exists>pre post. kvs = pre @ (k, v) # post \<and> k \<notin> fst ` set pre \<and> k \<notin> fst ` set post"
proof -
  from assms(2) obtain pre post where sp: "kvs = pre @ (k, v) # post"
    by (auto dest: split_list)
  with assms(1) have "k \<notin> fst ` set pre" "k \<notin> fst ` set post" by auto
  with sp show ?thesis by blast
qed

lemma loadData_split:
  assumes "fst (loadParsed e d st) = Inr ()"
    and "distinct (map fst (sdkEntries d))" and "(k, v) \<in> set (sdkEntries d)"
  shows "\<exists>pre post. sdkEntries d = pre @ (k, v) # post
           \<and> k \<notin> fst ` set pre \<and> k \<notin> fst ` set post
           \<and> loadData e d st =
               fold (loadEntryState e) post
                 (loadEntryState e (k, v) (fold (loadEntryState e) pre (clearState d st)))"
proof -
  from distinct_key_split[OF assms(2,3)] obtain pre post where
    sp: "sdkEntries d = pre @ (k, v) # post" "k \<notin> fst ` set pre" "k \<notin> fst ` set post"
    by blast
  then have "loadData e d st =
      fold (loadEntryState e) post
        (loadEntryState e (k, v) (fold (loadEntryState e) pre (clearState d st)))"
    by (simp add: loadData_returned[OF assms(1)])
  with sp show ?thesis by blast
qed

subsection \<open>Keys under \<^verbatim>\<open>g/s/\<close>\<close>

lemma startsWith2: "startsWith k [a, b] = (take 2 k = [a, b])"
  by (simp add: startsWith_def eval_nat_numeral)

lemma startsWith4: "startsWith k [a, b, c, d] = (take 4 k = [a, b, c, d])"
  by (simp add: startsWith_def eval_nat_numeral)

lemma g_s_key_split: "startsWith k ''g/s/'' \<Longrightarrow> k = ''g/s/'' @ slice k 4"
  using append_take_drop_id[of 4 k] unfolding slice_def startsWith4 by metis

lemma g_s_key_route:
  assumes "startsWith k ''g/s/''"
  shows "\<not> isIgnoredKey k" "\<not> startsWith k ''f/''" "startsWith k ''g/''"
        "k \<noteq> ''g/fidx''" "k \<noteq> ''g/lkgt''" "k \<noteq> ''g/sri''"
proof -
  have t4: "take 4 k = ''g/s/''" using assms by (simp only: startsWith4)
  have "take 2 (take 4 k) = take 2 k" by simp
  with t4 have t2: "take 2 k = ''g/''" by simp
  show "startsWith k ''g/''" "\<not> startsWith k ''f/''"
    using t2 by (simp_all only: startsWith2, simp_all)
  show "\<not> isIgnoredKey k" "k \<noteq> ''g/fidx''" "k \<noteq> ''g/lkgt''" "k \<noteq> ''g/sri''"
    using t4 by (auto simp: isIgnoredKey_def IGNORED_KEYS_def)
qed

lemma parseGlobalKey_g_s:
  assumes "startsWith k ''g/s/''"
  shows "snd (parseGlobalKey e k v st) =
     (case decodeEntry e v of
        None \<Rightarrow> st
      | Some entry \<Rightarrow>
         (case TlvSessionResumptionEntry e (raw entry) of
            Some r \<Rightarrow>
              modifyFabric (enat (SessionResumptionEntry.fabricIndex r))
                (\<lambda>f. f\<lparr>resumptions := AList.update (slice k 4) entry (resumptions f),
                       resumptionsDecoded := AList.update (slice k 4) r (resumptionsDecoded f)\<rparr>)
                (getOrCreateFabric (enat (SessionResumptionEntry.fabricIndex r)) st)
          | None \<Rightarrow> st\<lparr>generic := AList.update k v (generic st)\<rparr>))"
  using g_s_key_route[OF assms] assms
  by (simp add: parseGlobalKey_def Let_def split: option.splits)

lemma getFabric_parseGlobalKey_other:
  "\<not> startsWith k ''g/s/'' \<Longrightarrow> getFabric (snd (parseGlobalKey e k v st)) = getFabric st"
  by (simp add: parseGlobalKey_def Let_def split: option.splits)

lemma resumptionAt_parseFabricKey:
  "resumptionAt (snd (parseFabricKey e k v st)) n rid = resumptionAt st n rid"
  by (simp add: parseFabricKey_def resumptionAt_def getFabric_modifyFabric
        getFabric_getOrCreateFabric newFabric_def Let_def split: option.splits prod.splits)

lemma resumptionAt_parseGlobalKey_other:
  assumes "startsWith k ''g/s/''" "k' \<noteq> k"
  shows "resumptionAt (snd (parseGlobalKey e k' v' st)) n (slice k 4) = resumptionAt st n (slice k 4)"
proof (cases "startsWith k' ''g/s/''")
  case True
  then have ne: "slice k' 4 \<noteq> slice k 4"
    using assms g_s_key_split[of k] g_s_key_split[of k'] by metis
  show ?thesis
    using ne
    by (simp add: parseGlobalKey_g_s[OF True] resumptionAt_def getFabric_modifyFabric
          getFabric_getOrCreateFabric newFabric_def AList.update_conv' split: option.splits)
next
  case False
  then show ?thesis
    by (simp add: resumptionAt_def getFabric_parseGlobalKey_other)
qed

lemma resumptionAt_loadEntry_other:
  assumes "startsWith k ''g/s/''" "fst kv \<noteq> k"
  shows "resumptionAt (loadEntryState e kv st) n (slice k 4) = resumptionAt st n (slice k 4)"
  using assms
  by (simp add: loadEntryState_def loadEntry_def Let_def resumptionAt_parseFabricKey
        resumptionAt_parseGlobalKey_other)
     (simp add: resumptionAt_def)

lemma resumptionAt_loadEntry_self:
  assumes "startsWith k ''g/s/''" "TlvSessionResumptionEntry e (Buffer_from_base64 e b) = Some r"
  shows "resumptionAt (loadEntryState e (k, JStr b) st)
           (enat (SessionResumptionEntry.fabricIndex r)) (slice k 4)
           = (Some \<lparr>raw = Buffer_from_base64 e b, base64 = JStr b\<rparr>, Some r)"
  using g_s_key_route[OF assms(1)] assms(2)
  by (simp add: loadEntryState_def loadEntry_def parseGlobalKey_g_s[OF assms(1)] decodeEntry_string
        resumptionAt_def getFabric_modifyFabric getFabric_getOrCreateFabric AList.update_conv'
        split: option.splits)

lemma generic_parseFabricKey [simp]: "generic (snd (parseFabricKey e k v st)) = generic st"
  by (simp add: parseFabricKey_def Let_def split: option.splits prod.splits)

lemma ignored_parseFabricKey [simp]: "ignored (snd (parseFabricKey e k v st)) = ignored st"
  by (simp add: parseFabricKey_def Let_def split: option.splits prod.splits)

lemma ignored_parseGlobalKey [simp]: "ignored (snd (parseGlobalKey e k v st)) = ignored st"
  by (simp add: parseGlobalKey_def Let_def split: option.splits)

lemma generic_parseGlobalKey:
  "map_of (generic (snd (parseGlobalKey e k v st))) k' =
     (if k' = k \<and> startsWith k ''g/s/''
         \<and> (\<exists>entry. decodeEntry e v = Some entry
                \<and> TlvSessionResumptionEntry e (raw entry) = None)
      then Some v else map_of (generic st) k')"
proof (cases "startsWith k ''g/s/''")
  case True
  then show ?thesis
    by (simp add: parseGlobalKey_g_s AList.update_conv' split: option.splits)
next
  case False
  then show ?thesis
    by (simp add: parseGlobalKey_def Let_def split: option.splits)
qed

lemma generic_loadEntry_other:
  "fst kv \<noteq> k \<Longrightarrow> map_of (generic (loadEntryState e kv st)) k = map_of (generic st) k"
  by (simp add: loadEntryState_def loadEntry_def Let_def generic_parseGlobalKey AList.update_conv')

lemma ignored_loadEntry_other:
  "fst kv \<noteq> k \<Longrightarrow> map_of (ignored (loadEntryState e kv st)) k = map_of (ignored st) k"
  by (simp add: loadEntryState_def loadEntry_def Let_def AList.update_conv')

lemma g_s_buckets_after_load:
  assumes "fst (loadParsed e d st) = Inr ()"
    and "distinct (map fst (sdkEntries d))" and "(k, JStr b) \<in> set (sdkEntries d)"
    and "startsWith k ''g/s/''"
  shows "map_of (generic (loadData e d st)) k =
           (if TlvSessionResumptionEntry e (Buffer_from_base64 e b) = None
            then Some (JStr b) else None)"
    and "map_of (ignored (loadData e d st)) k = None"
proof -
  from loadData_split[OF assms(1,2,3)] obtain pre post where
    sp: "k \<notin> fst ` set pre" "k \<notin> fst ` set post"
    and ld: "loadData e d st =
      fold (loadEntryState e) post
        (loadEntryState e (k, JStr b) (fold (loadEntryState e) pre (clearState d st)))"
    by blast
  define s1 where "s1 = fold (loadEntryState e) pre (clearState d st)"
  define s2 where "s2 = loadEntryState e (k, JStr b) s1"
  have fin: "loadData e d st = fold (loadEntryState e) post s2" by (simp add: ld s1_def s2_def)
  have "map_of (generic s1) k = map_of (generic (clearState d st)) k"
    unfolding s1_def
    by (rule fold_preserves[where obs="\<lambda>s. map_of (generic s) k" and k=k])
       (simp_all add: generic_loadEntry_other sp(1))
  then have gen_pre: "map_of (generic s1) k = None" by (simp add: clearState_def clearData_def)
  have "map_of (ignored s1) k = map_of (ignored (clearState d st)) k"
    unfolding s1_def
    by (rule fold_preserves[where obs="\<lambda>s. map_of (ignored s) k" and k=k])
       (simp_all add: ignored_loadEntry_other sp(1))
  then have ign_pre: "map_of (ignored s1) k = None" by (simp add: clearState_def clearData_def)
  have gen_post: "map_of (generic (loadData e d st)) k = map_of (generic s2) k"
    unfolding fin
    by (rule fold_preserves[where obs="\<lambda>s. map_of (generic s) k" and k=k])
       (simp_all add: generic_loadEntry_other sp(2))
  have ign_post: "map_of (ignored (loadData e d st)) k = map_of (ignored s2) k"
    unfolding fin
    by (rule fold_preserves[where obs="\<lambda>s. map_of (ignored s) k" and k=k])
       (simp_all add: ignored_loadEntry_other sp(2))
  have route: "\<not> isIgnoredKey k" "\<not> startsWith k ''f/''" "startsWith k ''g/''"
    using g_s_key_route[OF assms(4)] by simp_all
  show "map_of (generic (loadData e d st)) k =
           (if TlvSessionResumptionEntry e (Buffer_from_base64 e b) = None
            then Some (JStr b) else None)"
    using route assms(4) gen_pre
    by (simp add: gen_post s2_def loadEntryState_def loadEntry_def generic_parseGlobalKey
          decodeEntry_string)
  show "map_of (ignored (loadData e d st)) k = None"
    using route ign_pre by (simp add: ign_post s2_def loadEntryState_def loadEntry_def)
qed

lemma resumption_after_load:
  assumes "fst (loadParsed e d st) = Inr ()"
    and "distinct (map fst (sdkEntries d))" and "(k, JStr b) \<in> set (sdkEntries d)"
    and "startsWith k ''g/s/''"
    and "TlvSessionResumptionEntry e (Buffer_from_base64 e b) = Some r"
  shows "resumptionAt (loadData e d st) (enat (SessionResumptionEntry.fabricIndex r)) (slice k 4)
           = (Some \<lparr>raw = Buffer_from_base64 e b, base64 = JStr b\<rparr>, Some r)"
proof -
  from loadData_split[OF assms(1,2,3)] obtain pre post where
    sp: "k \<notin> fst ` set post"
    and ld: "loadData e d st =
      fold (loadEntryState e) post
        (loadEntryState e (k, JStr b) (fold (loadEntryState e) pre (clearState d st)))"
    by blast
  have "resumptionAt (loadData e d st) n (slice k 4)
          = resumptionAt (loadEntryState e (k, JStr b)
              (fold (loadEntryState e) pre (clearState d st))) n (slice k 4)"
    for n
    unfolding ld
    by (rule fold_preserves[where obs="\<lambda>s. resumptionAt s n (slice k 4)" and k=k])
       (simp_all add: resumptionAt_loadEntry_other[OF assms(4)] sp)
  then show ?thesis by (simp add: resumptionAt_loadEntry_self[OF assms(4,5)])
qed

section \<open>Session resumption entries are filed by their payload\<close>

text \<open>
  Claim C5: for a key \<^verbatim>\<open>g/s/<resumptionId>\<close> of the file, when the payload decodes as a
  session resumption entry of fabric \<open>N\<close>, after \<^verbatim>\<open>load\<close> fabric \<open>N\<close> exists and holds the
  entry (raw bytes and original base64) under \<open>resumptions\<close> and the decoded record under
  \<open>resumptionsDecoded\<close>, both at the resumption identifier, and the key is in neither the
  generic nor the ignored bucket; when the payload does not decode, the key and its value
  are in the generic bucket.  The file is any parsed file whose loop ran to its end, which
  is every file whose values are strings (\<open>loadParsed_strings_return\<close>).
\<close>

theorem resumption_entry_filed_by_payload:
  assumes "fst (loadParsed e d st) = Inr ()"
    and "distinct (map fst (sdkEntries d))" and "(k, JStr v) \<in> set (sdkEntries d)"
    and "startsWith k ''g/s/''"
  shows "(\<forall>r. TlvSessionResumptionEntry e (Buffer_from_base64 e v) = Some r \<longrightarrow>
            (\<exists>f. getFabric (loadData e d st) (enat (SessionResumptionEntry.fabricIndex r)) = Some f
               \<and> map_of (resumptions f) (slice k 4)
                   = Some \<lparr>raw = Buffer_from_base64 e v, base64 = JStr v\<rparr>
               \<and> map_of (resumptionsDecoded f) (slice k 4) = Some r)
            \<and> map_of (generic (loadData e d st)) k = None
            \<and> map_of (ignored (loadData e d st)) k = None)
       \<and> (TlvSessionResumptionEntry e (Buffer_from_base64 e v) = None \<longrightarrow>
            map_of (generic (loadData e d st)) k = Some (JStr v))"
proof (intro conjI allI impI)
  fix r assume dec: "TlvSessionResumptionEntry e (Buffer_from_base64 e v) = Some r"
  from resumption_after_load[OF assms dec]
  show "\<exists>f. getFabric (loadData e d st) (enat (SessionResumptionEntry.fabricIndex r)) = Some f
               \<and> map_of (resumptions f) (slice k 4)
                   = Some \<lparr>raw = Buffer_from_base64 e v, base64 = JStr v\<rparr>
               \<and> map_of (resumptionsDecoded f) (slice k 4) = Some r"
    by (auto simp: resumptionAt_def split: option.splits)
  show "map_of (generic (loadData e d st)) k = None"
    using g_s_buckets_after_load(1)[OF assms] dec by simp
  show "map_of (ignored (loadData e d st)) k = None"
    using g_s_buckets_after_load(2)[OF assms] by simp
next
  assume "TlvSessionResumptionEntry e (Buffer_from_base64 e v) = None"
  then show "map_of (generic (loadData e d st)) k = Some (JStr v)"
    using g_s_buckets_after_load(1)[OF assms] by simp
qed

theorem resumption_entry_filed_by_payload_witness:
  "fst (loadParsed sample_env
       \<lparr>sdk_config = Some [(''g/s/resumption1'', JStr ''FSQBASQCcBg=''), (''g/s/other'', JStr ''aW52YWxpZA=='')],
        repl_config = None\<rparr> newChipConfigData) = Inr ()
   \<and> distinct (map fst (sdkEntries
       \<lparr>sdk_config = Some [(''g/s/resumption1'', JStr ''FSQBASQCcBg=''), (''g/s/other'', JStr ''aW52YWxpZA=='')],
        repl_config = None\<rparr>))
   \<and> startsWith ''g/s/resumption1'' ''g/s/''
   \<and> TlvSessionResumptionEntry sample_env (Buffer_from_base64 sample_env ''FSQBASQCcBg='')
       = Some \<lparr>SessionResumptionEntry.fabricIndex = 1, peerNodeId = 112\<rparr>
   \<and> TlvSessionResumptionEntry sample_env (Buffer_from_base64 sample_env ''aW52YWxpZA=='') = None
   \<and> map_option (\<lambda>f. map_of (resumptionsDecoded f) ''resumption1'')
        (getFabric (loadData sample_env
           \<lparr>sdk_config = Some [(''g/s/resumption1'', JStr ''FSQBASQCcBg=''), (''g/s/other'', JStr ''aW52YWxpZA=='')],
            repl_config = None\<rparr> newChipConfigData) 1)
       = Some (Some \<lparr>SessionResumptionEntry.fabricIndex = 1, peerNodeId = 112\<rparr>)
   \<and> map_of (generic (loadData sample_env
       \<lparr>sdk_config = Some [(''g/s/resumption1'', JStr ''FSQBASQCcBg=''), (''g/s/other'', JStr ''aW52YWxpZA=='')],
        repl_config = None\<rparr> newChipConfigData)) ''g/s/resumption1'' = None
   \<and> map_of (generic (loadData sample_env
       \<lparr>sdk_config = Some [(''g/s/resumption1'', JStr ''FSQBASQCcBg=''), (''g/s/other'', JStr ''aW52YWxpZA=='')],
        repl_config = None\<rparr> newChipConfigData)) ''g/s/other'' = Some (JStr ''aW52YWxpZA=='')"
proof -
  let ?d = "\<lparr>sdk_config = Some [(''g/s/resumption1'', JStr ''FSQBASQCcBg=''), (''g/s/other'', JStr ''aW52YWxpZA=='')],
        repl_config = None\<rparr>"
  let ?r = "\<lparr>SessionResumptionEntry.fabricIndex = 1, peerNodeId = 112\<rparr>"
  have h0: "fst (loadParsed sample_env ?d newChipConfigData) = Inr ()"
    by (rule loadParsed_strings_return) (simp add: sdkEntries_def)
  have h1: "distinct (map fst (sdkEntries ?d))" by (simp add: sdkEntries_def)
  have h2: "(''g/s/resumption1'', JStr ''FSQBASQCcBg='') \<in> set (sdkEntries ?d)"
    by (simp add: sdkEntries_def)
  have h2': "(''g/s/other'', JStr ''aW52YWxpZA=='') \<in> set (sdkEntries ?d)" by (simp add: sdkEntries_def)
  have h3: "startsWith ''g/s/resumption1'' ''g/s/''" by (simp add: startsWith_def)
  have h3': "startsWith ''g/s/other'' ''g/s/''" by (simp add: startsWith_def)
  have h4: "TlvSessionResumptionEntry sample_env (Buffer_from_base64 sample_env ''FSQBASQCcBg='') = Some ?r"
    by (simp add: sample_env_def sample_base64_def)
  have h4': "TlvSessionResumptionEntry sample_env (Buffer_from_base64 sample_env ''aW52YWxpZA=='') = None"
    by (simp add: sample_env_def sample_base64_def)
  have sl: "slice ''g/s/resumption1'' 4 = ''resumption1''" by (simp add: slice_def)
  from resumption_entry_filed_by_payload[OF h0 h1 h2 h3] h4
  have a: "map_of (generic (loadData sample_env ?d newChipConfigData)) ''g/s/resumption1'' = None"
    and c: "\<exists>f. getFabric (loadData sample_env ?d newChipConfigData)
                   (enat (SessionResumptionEntry.fabricIndex ?r)) = Some f
               \<and> map_of (resumptionsDecoded f) (slice ''g/s/resumption1'' 4) = Some ?r"
    by blast+
  from c have c': "map_option (\<lambda>f. map_of (resumptionsDecoded f) ''resumption1'')
        (getFabric (loadData sample_env ?d newChipConfigData) 1) = Some (Some ?r)"
    unfolding sl by (auto simp: one_enat_def)
  from resumption_entry_filed_by_payload[OF h0 h1 h2' h3'] h4'
  have b: "map_of (generic (loadData sample_env ?d newChipConfigData)) ''g/s/other''
             = Some (JStr ''aW52YWxpZA=='')"
    by blast
  show ?thesis using h0 h1 h3 h4 h4' a b c' by blast
qed

section \<open>Fabric indices\<close>

subsection \<open>Numbers read from keys\<close>

lemma digitValue_table:
  "map digitValue ''0123456789abcdefABCDEF''
     = [0, 1, 2, 3, 4, 5, 6, 7, 8, 9, 10, 11, 12, 13, 14, 15, 10, 11, 12, 13, 14, 15]"
  by (simp add: digitValue_def)

lemma digitsValue_snoc: "digitsValue radix (ds @ [c]) = radix * digitsValue radix ds + digitValue c"
  by (simp add: digitsValue_def)

lemma toNumber_exact: "n < 2 ^ 53 \<Longrightarrow> toNumber n = enat n"
  by (simp add: toNumber_def)

lemma bitLength_54: "bitLength 9007199254740993 = 54" "bitLength 9007199254740994 = 54"
  "bitLength 9007199254740995 = 54" "bitLength 9007199254740992 = 54"
  by (simp_all add: bitLength.simps)

lemma toNumber_examples:
  "toNumber 9007199254740992 = enat 9007199254740992"
  "toNumber 9007199254740993 = enat 9007199254740992"
  "toNumber 9007199254740994 = enat 9007199254740994"
  "toNumber 9007199254740995 = enat 9007199254740996"
  by (simp_all add: toNumber_def bitLength_54 Let_def)

lemma hex_examples:
  "parseIntHex ''1'' = 1" "parseIntHex ''2'' = 2" "parseIntHex ''3'' = 3" "parseIntHex ''A'' = 10"
  "parseIntHex ''B'' = 11" "parseIntHex ''FF'' = 255" "parseIntHex ''ff'' = 255"
  "parseIntHex ''01'' = 1" "parseIntHex ''10'' = 16"
  by (simp_all add: parseIntHex_def digitsValue_def digitValue_def toNumber_def
        numeral_eq_enat one_enat_def)

lemma hex_rounding_examples:
  "parseIntHex ''20000000000000'' = 9007199254740992"
  "parseIntHex ''20000000000001'' = 9007199254740992"
  "parseIntHex ''20000000000002'' = 9007199254740994"
  "parseIntHex ''20000000000003'' = 9007199254740996"
  by (simp_all add: parseIntHex_def digitsValue_def digitValue_def toNumber_examples
        numeral_eq_enat)

lemma key_set_index_examples:
  "parseInt10 ''0'' = Num 0" "parseInt10 ''-1'' = Num (- 1)" "parseInt10 ''07'' = Num 7"
  "parseInt10 ''12px'' = Num 12" "parseInt10 ''x'' = NaN" "parseInt10 [] = NaN"
  "parseInt10 ''9007199254740992'' = Num 9007199254740992"
  "parseInt10 ''9007199254740993'' = Num 9007199254740992"
  by (simp_all add: parseInt10_def digitsValue_def digitValue_def toNumber_examples Let_def
        isWhiteSpace_def isDecDigit_def)
     (simp_all add: toNumber_def)

text \<open>
  The number of a string of digits is the nearest double: a multiple of the spacing of the
  doubles around it, at most half a spacing away, and \<^verbatim>\<open>Infinity\<close> from \<open>2^1024\<close> on.
\<close>

lemma bitLength_lower: "0 < n \<Longrightarrow> 2 ^ (bitLength n - 1) \<le> n"
proof (induction n rule: bitLength.induct)
  case (1 n)
  show ?case
  proof (cases "n div 2 = 0")
    case True
    with 1(2) have "n = 1" by (simp add: div_eq_0_iff)
    then show ?thesis by (simp add: bitLength.simps)
  next
    case False
    then have pos: "0 < n div 2" by simp
    with 1 have ih: "2 ^ (bitLength (n div 2) - 1) \<le> n div 2" by simp
    have bl: "bitLength n = Suc (bitLength (n div 2))" using 1(2) by (simp add: bitLength.simps)
    have "0 < bitLength (n div 2)" using pos by (simp add: bitLength.simps)
    then have "2 ^ (bitLength n - 1) = 2 * 2 ^ (bitLength (n div 2) - 1)"
      unfolding bl by (cases "bitLength (n div 2)") simp_all
    also have "\<dots> \<le> 2 * (n div 2)" using ih by simp
    also have "\<dots> \<le> n" by simp
    finally show ?thesis .
  qed
qed

lemma bitLength_upper: "n < 2 ^ bitLength n"
proof (induction n rule: bitLength.induct)
  case (1 n)
  show ?case
  proof (cases "n = 0")
    case True
    then show ?thesis by simp
  next
    case False
    with 1 have ih: "n div 2 < 2 ^ bitLength (n div 2)" by simp
    have bl: "bitLength n = Suc (bitLength (n div 2))" using False by (simp add: bitLength.simps)
    from ih have "n < 2 * 2 ^ bitLength (n div 2)" by arith
    then show ?thesis unfolding bl by simp
  qed
qed

lemma toNumber_overflow:
  assumes "2 ^ 1024 \<le> n"
  shows "toNumber n = \<infinity>"
proof -
  have big: "\<not> n < 2 ^ 53"
  proof -
    have "(2::nat) ^ 53 \<le> 2 ^ 1024" by (rule power_increasing) simp_all
    with assms show ?thesis by simp
  qed
  have npos: "0 < n" using assms by (cases "n = 0") simp_all
  define e where "e = bitLength n - 53"
  have lt: "(2::nat) ^ 1024 < 2 ^ bitLength n" by (rule le_less_trans[OF assms bitLength_upper])
  have bl: "1024 < bitLength n" by (rule power_less_imp_less_exp[OF _ lt]) simp
  then have ble: "bitLength n - 1 = 52 + e" by (simp add: e_def)
  have "2 ^ 52 * 2 ^ e \<le> n" using bitLength_lower[OF npos] unfolding ble by (simp add: power_add)
  then have q: "2 ^ 52 \<le> n div 2 ^ e" by (simp add: less_eq_div_iff_mult_less_eq)
  have e: "972 \<le> e" using bl by (simp add: e_def)
  have "(2::nat) ^ 1024 = 2 ^ 52 * 2 ^ 972" by (simp add: power_add[symmetric])
  also have "\<dots> \<le> 2 ^ 52 * 2 ^ e"
    by (rule mult_le_mono2, rule power_increasing[OF e]) simp
  also have "\<dots> \<le> (n div 2 ^ e) * 2 ^ e" using q by simp
  finally have low: "2 ^ 1024 \<le> (n div 2 ^ e) * 2 ^ e" .
  then have low': "2 ^ 1024 \<le> (n div 2 ^ e + 1) * 2 ^ e"
    by (metis add.commute le_add2 mult_le_mono1 order_trans)
  show ?thesis
    using big low low' by (simp add: toNumber_def Let_def e_def[symmetric] not_less del: power_numeral)
qed


lemma digitsValue_zeros:
  "foldl (\<lambda>a c. 16 * a + digitValue c) a (replicate n CHR ''0'') = a * 16 ^ n"
  by (induction n arbitrary: a) (simp_all add: digitValue_def)

lemma hex_overflow_example: "parseIntHex (CHR ''1'' # replicate 256 CHR ''0'') = \<infinity>"
proof -
  have "digitsValue 16 (CHR ''1'' # replicate 256 CHR ''0'') = 16 ^ 256"
    unfolding digitsValue_def foldl_Cons digitsValue_zeros
    by (simp add: digitValue_def del: power_numeral)
  also have "(16::nat) ^ 256 = (2 ^ 4) ^ 256" by simp
  also have "\<dots> = 2 ^ 1024" by (simp only: power_mult[symmetric]) simp
  finally have "digitsValue 16 (CHR ''1'' # replicate 256 CHR ''0'') = 2 ^ 1024" .
  then show ?thesis by (simp only: parseIntHex_def toNumber_overflow[OF order_refl])
qed

lemma toNumber_nearest:
  assumes "2 ^ 53 \<le> n" "toNumber n = enat m"
  shows "2 ^ (bitLength n - 53) dvd m"
    and "m \<le> n + 2 ^ (bitLength n - 54)" "n \<le> m + 2 ^ (bitLength n - 54)"
proof -
  define e where "e = bitLength n - 53"
  define q where "q = n div 2 ^ e"
  define r where "r = n mod 2 ^ e"
  have "(2::nat) ^ 53 < 2 ^ bitLength n"
    by (rule le_less_trans[OF assms(1) bitLength_upper])
  then have bl: "53 < bitLength n" by (rule power_less_imp_less_exp[rotated]) simp
  then have e1: "e - 1 = bitLength n - 54" "0 < e" by (simp_all add: e_def)
  then have two: "(2::nat) ^ e = 2 * 2 ^ (e - 1)" by (cases e) simp_all
  have n: "n = q * 2 ^ e + r" unfolding q_def r_def by (rule div_mult_mod_eq[symmetric])
  have r: "r < 2 * 2 ^ (e - 1)" unfolding two[symmetric] r_def by simp
  from assms have m: "m = (if 2 ^ (e - 1) < r \<or> (r = 2 ^ (e - 1) \<and> odd q) then q + 1 else q) * 2 ^ e"
    by (auto simp: toNumber_def Let_def e_def[symmetric] q_def[symmetric] r_def[symmetric]
          not_less[symmetric] split: if_splits simp del: power_numeral)
  show "2 ^ (bitLength n - 53) dvd m" unfolding m e_def[symmetric] by simp
  define h :: nat where "h = 2 ^ (e - 1)"
  have hh: "2 ^ (bitLength n - 54) = h" unfolding h_def e1(1) ..
  have "m \<le> n + h \<and> n \<le> m + h"
    using r unfolding m n two h_def[symmetric] by (auto simp: algebra_simps)
  then show "m \<le> n + 2 ^ (bitLength n - 54)" "n \<le> m + 2 ^ (bitLength n - 54)"
    unfolding hh by simp_all
qed

subsection \<open>The fabrics a file creates\<close>

lemma getFabric_Some_key: "getFabric st i = Some f \<Longrightarrow> i \<in> fst ` set (fabrics st)"
  unfolding getFabric_def by (metis map_of_eq_None_iff option.distinct(1))

lemma getFabric_None_key: "getFabric st i = None \<Longrightarrow> i \<notin> fst ` set (fabrics st)"
  unfolding getFabric_def by (simp add: map_of_eq_None_iff)

lemma fabricKeys_getOrCreateFabric:
  "fst ` set (fabrics (getOrCreateFabric i st)) = insert i (fst ` set (fabrics st))"
  by (auto simp: getOrCreateFabric_def dest: getFabric_Some_key split: option.splits)

lemma distinct_getOrCreateFabric:
  "distinct (map fst (fabrics st)) \<Longrightarrow> distinct (map fst (fabrics (getOrCreateFabric i st)))"
  by (auto simp: getOrCreateFabric_def dest: getFabric_None_key split: option.splits)

lemma fabricKeys_modifyFabric:
  "fst ` set (fabrics (modifyFabric i g st)) = fst ` set (fabrics st)"
  by (simp add: modifyFabric_def AList.dom_map_entry)

lemma distinct_modifyFabric:
  "distinct (map fst (fabrics st)) \<Longrightarrow> distinct (map fst (fabrics (modifyFabric i g st)))"
  by (simp add: modifyFabric_def AList.distinct_map_entry)

lemma fabricKeys_parseFabricKey:
  "fst ` set (fabrics (snd (parseFabricKey e k v st))) =
     fst ` set (fabrics st) \<union>
       (case matchFabricKey k of None \<Rightarrow> {} | Some (seg, subKey) \<Rightarrow> {parseIntHex seg})"
  by (simp add: parseFabricKey_def Let_def fabricKeys_modifyFabric fabricKeys_getOrCreateFabric
        split: option.splits prod.splits)

lemma distinct_parseFabricKey:
  "distinct (map fst (fabrics st)) \<Longrightarrow>
     distinct (map fst (fabrics (snd (parseFabricKey e k v st))))"
  by (simp add: parseFabricKey_def Let_def distinct_modifyFabric distinct_getOrCreateFabric
        split: option.splits prod.splits)

lemma fabrics_parseGlobalKey_other:
  "\<not> startsWith k ''g/s/'' \<Longrightarrow> fabrics (snd (parseGlobalKey e k v st)) = fabrics st"
  by (simp add: parseGlobalKey_def Let_def split: option.splits)

lemma fabricKeys_parseGlobalKey:
  "fst ` set (fabrics (snd (parseGlobalKey e k v st))) =
     fst ` set (fabrics st) \<union>
       (if startsWith k ''g/s/''
        then (case decodeEntry e v of
                None \<Rightarrow> {}
              | Some entry \<Rightarrow>
                  set_option (map_option (\<lambda>r. enat (SessionResumptionEntry.fabricIndex r))
                    (TlvSessionResumptionEntry e (raw entry))))
        else {})"
proof (cases "startsWith k ''g/s/''")
  case True
  then show ?thesis
    by (simp add: parseGlobalKey_g_s fabricKeys_modifyFabric fabricKeys_getOrCreateFabric
          split: option.splits)
next
  case False
  then show ?thesis by (simp add: fabrics_parseGlobalKey_other)
qed

lemma distinct_parseGlobalKey:
  assumes "distinct (map fst (fabrics st))"
  shows "distinct (map fst (fabrics (snd (parseGlobalKey e k v st))))"
proof (cases "startsWith k ''g/s/''")
  case True
  then show ?thesis using assms
    by (simp add: parseGlobalKey_g_s distinct_modifyFabric distinct_getOrCreateFabric
          split: option.splits)
next
  case False
  then show ?thesis using assms by (simp add: fabrics_parseGlobalKey_other)
qed

lemma fabricKeys_loadEntry:
  "fst ` set (fabrics (loadEntryState e kv st)) =
     fst ` set (fabrics st) \<union> set_option (createdFabric e kv)"
proof (cases "startsWith (fst kv) ''g/s/''")
  case True
  from g_s_key_route[OF True] True show ?thesis
    by (simp add: loadEntryState_def loadEntry_def createdFabric_def Let_def
          fabricKeys_parseGlobalKey split: option.splits)
next
  case False
  then show ?thesis
    by (simp add: loadEntryState_def loadEntry_def createdFabric_def Let_def
          fabricKeys_parseGlobalKey fabricKeys_parseFabricKey split: option.splits prod.splits)
qed

lemma distinct_loadEntry:
  "distinct (map fst (fabrics st)) \<Longrightarrow> distinct (map fst (fabrics (loadEntryState e kv st)))"
  by (simp add: loadEntryState_def loadEntry_def Let_def distinct_parseFabricKey
        distinct_parseGlobalKey)

lemma fabricKeys_fold:
  "fst ` set (fabrics (fold (loadEntryState e) kvs st)) =
     fst ` set (fabrics st) \<union> (\<Union>kv \<in> set kvs. set_option (createdFabric e kv))"
  by (induction kvs arbitrary: st) (auto simp: fabricKeys_loadEntry)

lemma distinct_fold:
  "distinct (map fst (fabrics st)) \<Longrightarrow>
     distinct (map fst (fabrics (fold (loadEntryState e) kvs st)))"
  by (induction kvs arbitrary: st) (auto simp: distinct_loadEntry)

lemma fabricKeys_loadData_subset:
  "fst ` set (fabrics (loadData e d st))
     \<subseteq> {i. \<exists>kv \<in> set (sdkEntries d). createdFabric e kv = Some i}"
proof -
  from loadEntries_prefix[of e "sdkEntries d" "clearState d st"] obtain n where
    n: "loadData e d st = fold (loadEntryState e) (take n (sdkEntries d)) (clearState d st)"
    by (auto simp: loadData_def loadParsed_def)
  show ?thesis
    unfolding n
    by (auto simp: fabricKeys_fold clearState_def clearData_def elem_set dest: in_set_takeD)
qed

lemma fabricKeys_loadData:
  "fst (loadParsed e d st) = Inr () \<Longrightarrow>
     fst ` set (fabrics (loadData e d st)) =
       {i. \<exists>kv \<in> set (sdkEntries d). createdFabric e kv = Some i}"
  by (auto simp: loadData_returned fabricKeys_fold clearState_def clearData_def elem_set)

lemma distinct_loadData: "distinct (map fst (fabrics (loadData e d st)))"
proof -
  from loadEntries_prefix[of e "sdkEntries d" "clearState d st"] obtain n where
    n: "loadData e d st = fold (loadEntryState e) (take n (sdkEntries d)) (clearState d st)"
    by (auto simp: loadData_def loadParsed_def)
  show ?thesis unfolding n by (rule distinct_fold) (simp add: clearState_def clearData_def)
qed

lemma matchFabricKey_created:
  assumes "matchFabricKey k = Some (seg, subKey)"
  shows "createdFabric e (k, v) = Some (parseIntHex seg)"
proof -
  from assms have sw: "startsWith k ''f/''" by (simp add: matchFabricKey_def split: if_splits)
  then have "take 2 k = ''f/''" by (simp only: startsWith2)
  then have "\<not> isIgnoredKey k" by (auto simp: isIgnoredKey_def IGNORED_KEYS_def)
  with sw assms show ?thesis by (simp add: createdFabric_def)
qed

text \<open>
  Claim C6: the fabric segment of a key is read in base 16: the sixteen digits have the
  values 0 to 15, in either case of the letters; each further digit multiplies by 16; the
  result is the exact integer below \<open>2^53\<close> and the nearest double from there on (so
  \<^verbatim>\<open>FF\<close> is 255, \<^verbatim>\<open>A\<close> is 10, and \<^verbatim>\<open>20000000000001\<close> is 9007199254740992).  After
  \<^verbatim>\<open>load\<close>, whether it returned or threw, \<^verbatim>\<open>getFabricIndices()\<close> is ascending in the
  numeric order, without repetition, and lists exactly the fabrics of the model; when the
  loop of \<^verbatim>\<open>load\<close> ran to its end these are exactly the indices the entries of the file
  refer to, and for a file whose keys all match the fabric pattern with the segments
  \<^verbatim>\<open>1\<close>, \<^verbatim>\<open>2\<close>, \<^verbatim>\<open>3\<close>, \<^verbatim>\<open>A\<close>, each of them occurring, it is \<open>[1, 2, 3, 10]\<close>.
\<close>

theorem fabric_indices_hex_and_sorted:
  "map digitValue ''0123456789abcdefABCDEF''
     = [0, 1, 2, 3, 4, 5, 6, 7, 8, 9, 10, 11, 12, 13, 14, 15, 10, 11, 12, 13, 14, 15]
   \<and> digitsValue 16 [] = 0
   \<and> digitsValue 16 (ds @ [c]) = 16 * digitsValue 16 ds + digitValue c
   \<and> (digitsValue 16 ds < 2 ^ 53 \<longrightarrow> parseIntHex ds = enat (digitsValue 16 ds))
   \<and> parseIntHex ''A'' = 10
   \<and> parseIntHex ''B'' = 11
   \<and> parseIntHex ''FF'' = 255
   \<and> parseIntHex ''20000000000001'' = 9007199254740992
   \<and> parseIntHex ''20000000000003'' = 9007199254740996
   \<and> sorted (getFabricIndices (loadData e d st))
   \<and> distinct (getFabricIndices (loadData e d st))
   \<and> set (getFabricIndices (loadData e d st)) = {i. getFabric (loadData e d st) i \<noteq> None}
   \<and> (fst (loadParsed e d st) = Inr () \<longrightarrow>
        set (getFabricIndices (loadData e d st))
          = {i. \<exists>kv \<in> set (sdkEntries d). createdFabric e kv = Some i})
   \<and> (fst (loadParsed e d st) = Inr ()
        \<and> (\<forall>kv \<in> set (sdkEntries d). \<exists>seg subKey.
           matchFabricKey (fst kv) = Some (seg, subKey) \<and> seg \<in> {''1'', ''2'', ''3'', ''A''})
        \<and> (\<forall>seg \<in> {''1'', ''2'', ''3'', ''A''}. \<exists>kv \<in> set (sdkEntries d). \<exists>subKey.
           matchFabricKey (fst kv) = Some (seg, subKey))
       \<longrightarrow> getFabricIndices (loadData e d st) = [1, 2, 3, 10])"
proof -
  let ?S = "loadData e d st"
  have nil: "digitsValue 16 [] = 0" by (simp add: digitsValue_def)
  have exact: "digitsValue 16 ds < 2 ^ 53 \<longrightarrow> parseIntHex ds = enat (digitsValue 16 ds)"
    by (simp add: parseIntHex_def toNumber_exact)
  have srt: "sorted (getFabricIndices ?S)" by (simp add: getFabricIndices_def)
  have dst: "distinct (getFabricIndices ?S)"
    using distinct_loadData[of e d st] by (simp add: getFabricIndices_def)
  have st1: "set (getFabricIndices ?S) = {i. getFabric ?S i \<noteq> None}"
    by (auto simp: getFabricIndices_def getFabric_def map_of_eq_None_iff)
  have st2: "set (getFabricIndices ?S)
      = {i. \<exists>kv \<in> set (sdkEntries d). createdFabric e kv = Some i}"
    if "fst (loadParsed e d st) = Inr ()"
    using fabricKeys_loadData[OF that] by (simp add: getFabricIndices_def)
  have ex: "getFabricIndices ?S = [1, 2, 3, 10]"
    if ok: "fst (loadParsed e d st) = Inr ()"
    and a: "\<forall>kv \<in> set (sdkEntries d). \<exists>seg subKey.
           matchFabricKey (fst kv) = Some (seg, subKey) \<and> seg \<in> {''1'', ''2'', ''3'', ''A''}"
    and b: "\<forall>seg \<in> {''1'', ''2'', ''3'', ''A''}. \<exists>kv \<in> set (sdkEntries d). \<exists>subKey.
           matchFabricKey (fst kv) = Some (seg, subKey)"
  proof -
    have sub: "set (getFabricIndices ?S) \<subseteq> {1, 2, 3, 10}"
    proof
      fix i assume "i \<in> set (getFabricIndices ?S)"
      then obtain kv where kv: "kv \<in> set (sdkEntries d)" "createdFabric e kv = Some i"
        unfolding st2[OF ok] by blast
      from a kv(1) obtain seg subKey where
        m: "matchFabricKey (fst kv) = Some (seg, subKey)" "seg \<in> {''1'', ''2'', ''3'', ''A''}"
        by blast
      have "createdFabric e kv = Some (parseIntHex seg)"
        using matchFabricKey_created[OF m(1), of e "snd kv"] by simp
      with kv(2) have "i = parseIntHex seg" by simp
      with m(2) show "i \<in> {1, 2, 3, 10}" using hex_examples(1-4) by auto
    qed
    have sup: "parseIntHex seg \<in> set (getFabricIndices ?S)"
      if "seg \<in> {''1'', ''2'', ''3'', ''A''}" for seg
    proof -
      from b that obtain kv subKey where
        kv: "kv \<in> set (sdkEntries d)" "matchFabricKey (fst kv) = Some (seg, subKey)" by blast
      have "createdFabric e kv = Some (parseIntHex seg)"
        using matchFabricKey_created[OF kv(2), of e "snd kv"] by simp
      with kv(1) show ?thesis unfolding st2[OF ok] by blast
    qed
    have "{1, 2, 3, 10} \<subseteq> set (getFabricIndices ?S)"
      using sup[of "''1''"] sup[of "''2''"] sup[of "''3''"] sup[of "''A''"] hex_examples(1-4)
      by simp
    with sub have "set (getFabricIndices ?S) = set [1, 2, 3, 10::enat]" by auto
    moreover have "sorted [1, 2, 3, 10::enat]" "distinct [1, 2, 3, 10::enat]"
      by (simp_all add: numeral_eq_enat one_enat_def)
    ultimately show ?thesis using srt dst by (metis sorted_distinct_set_unique)
  qed
  show ?thesis
    using digitValue_table nil digitsValue_snoc[of 16 ds c] exact hex_examples(4,5,6)
      hex_rounding_examples(2,4) srt dst st1 st2 ex
    by blast
qed

theorem fabric_indices_hex_and_sorted_witness:
  "digitsValue 16 ''FF'' < 2 ^ 53
   \<and> digitsValue 16 ''FF'' = 16 * digitsValue 16 ''F'' + digitValue CHR ''F''
   \<and> parseIntHex ''FF'' = enat (digitsValue 16 ''FF'')
   \<and> fst (loadParsed sample_env
      \<lparr>sdk_config = Some [(''f/3/n'', JStr ''dGVzdA==''), (''f/1/n'', JStr ''dGVzdA==''),
                          (''f/A/n'', JStr ''dGVzdA==''), (''f/2/n'', JStr ''dGVzdA=='')],
       repl_config = None\<rparr> newChipConfigData) = Inr ()
   \<and> matchFabricKey ''f/A/n'' = Some (''A'', ''n'')
   \<and> createdFabric sample_env (''f/A/n'', JStr ''dGVzdA=='') = Some 10
   \<and> 10 \<in> set (getFabricIndices (loadData sample_env
      \<lparr>sdk_config = Some [(''f/3/n'', JStr ''dGVzdA==''), (''f/1/n'', JStr ''dGVzdA==''),
                          (''f/A/n'', JStr ''dGVzdA==''), (''f/2/n'', JStr ''dGVzdA=='')],
       repl_config = None\<rparr> newChipConfigData))
   \<and> getFabricIndices (loadData sample_env
      \<lparr>sdk_config = Some [(''f/3/n'', JStr ''dGVzdA==''), (''f/1/n'', JStr ''dGVzdA==''),
                          (''f/A/n'', JStr ''dGVzdA==''), (''f/2/n'', JStr ''dGVzdA=='')],
       repl_config = None\<rparr> newChipConfigData) = [1, 2, 3, 10]"
proof -
  let ?d = "\<lparr>sdk_config = Some [(''f/3/n'', JStr ''dGVzdA==''), (''f/1/n'', JStr ''dGVzdA==''),
                          (''f/A/n'', JStr ''dGVzdA==''), (''f/2/n'', JStr ''dGVzdA=='')],
       repl_config = None\<rparr>"
  have small: "digitsValue 16 ''FF'' < 2 ^ 53" by (simp add: digitsValue_def digitValue_def)
  have ok: "fst (loadParsed sample_env ?d newChipConfigData) = Inr ()"
    by (rule loadParsed_strings_return) (simp add: sdkEntries_def)
  have m: "matchFabricKey ''f/3/n'' = Some (''3'', ''n'')"
    "matchFabricKey ''f/1/n'' = Some (''1'', ''n'')"
    "matchFabricKey ''f/A/n'' = Some (''A'', ''n'')"
    "matchFabricKey ''f/2/n'' = Some (''2'', ''n'')"
    by (simp_all add: matchFabricKey_def startsWith_def isHexDigit_def isLineTerminator_def)
  have cf: "createdFabric sample_env (''f/A/n'', JStr ''dGVzdA=='') = Some 10"
    by (simp add: createdFabric_def m isIgnoredKey_def IGNORED_KEYS_def startsWith_def
          parseIntHex_def digitsValue_def digitValue_def toNumber_def numeral_eq_enat)
  have mem: "(''f/A/n'', JStr ''dGVzdA=='') \<in> set (sdkEntries ?d)" by (simp add: sdkEntries_def)
  have a: "\<forall>kv \<in> set (sdkEntries ?d). \<exists>seg subKey.
           matchFabricKey (fst kv) = Some (seg, subKey) \<and> seg \<in> {''1'', ''2'', ''3'', ''A''}"
    by (simp add: sdkEntries_def m)
  have b: "\<forall>seg \<in> {''1'', ''2'', ''3'', ''A''}. \<exists>kv \<in> set (sdkEntries ?d). \<exists>subKey.
           matchFabricKey (fst kv) = Some (seg, subKey)"
    by (simp add: sdkEntries_def m)
  note inst = fabric_indices_hex_and_sorted[of "''F''" "CHR ''F''" sample_env ?d newChipConfigData]
  from inst have rec: "digitsValue 16 ''FF'' = 16 * digitsValue 16 ''F'' + digitValue CHR ''F''"
    by simp
  from fabric_indices_hex_and_sorted[of "''FF''" c sample_env ?d newChipConfigData] small
  have ex: "parseIntHex ''FF'' = enat (digitsValue 16 ''FF'')" by blast
  from inst ok have "set (getFabricIndices (loadData sample_env ?d newChipConfigData))
      = {i. \<exists>kv \<in> set (sdkEntries ?d). createdFabric sample_env kv = Some i}"
    by blast
  with cf mem have ten: "10 \<in> set (getFabricIndices (loadData sample_env ?d newChipConfigData))"
    by blast
  from inst ok a b
  have "getFabricIndices (loadData sample_env ?d newChipConfigData) = [1, 2, 3, 10]" by blast
  with small rec ex ok m(3) cf ten show ?thesis by blast
qed

section \<open>Decode failures\<close>













text \<open>
  Keys whose numbers differ only beyond the precision of a double are routed to the same
  slot, as are keys that spell the same number differently.
\<close>

lemma slots_shared_by_distinct_keys:
  "decodedSlot ''f/20000000000001/m'' = decodedSlot ''f/20000000000000/m''"
  "decodedSlot ''f/01/m'' = decodedSlot ''f/1/m''"
  "decodedSlot ''f/1/k/9007199254740993'' = decodedSlot ''f/1/k/9007199254740992''"
  "decodedSlot ''f/1/k/x'' = Some (KeySlot 1 NaN)"
  by (simp_all add: decodedSlot_def matchFabricKey_def startsWith_def slice_def isHexDigit_def
        isLineTerminator_def isIgnoredKey_def IGNORED_KEYS_def hex_examples
        hex_rounding_examples key_set_index_examples)

text \<open>
  A value that is not a string can make \<^verbatim>\<open>load\<close> throw in the middle of its loop:
  \<^verbatim>\<open>Buffer.from(null, "base64")\<close> raises a \<^verbatim>\<open>TypeError\<close> outside every \<^verbatim>\<open>try\<close>, after
  the model was cleared and the fabric of the key was created, and the entries after it
  are never read.
\<close>

lemma load_throws_on_value_not_a_string:
  "Buffer_from_value e JNull = None \<Longrightarrow>
     loadParsed e \<lparr>sdk_config = Some [(''f/1/m'', JNull), (''ExampleKey'', JStr ''dGVzdA=='')],
                   repl_config = None\<rparr> st
       = (Inl TypeError, getOrCreateFabric 1 (clearData st\<lparr>replConfig := JObj []\<rparr>))"
  by (simp add: loadParsed_def sdkEntries_def clearState_def loadEntry_def isIgnoredKey_def
        IGNORED_KEYS_def startsWith_def parseFabricKey_def matchFabricKey_def isHexDigit_def
        isLineTerminator_def decodeEntry_def hex_examples Let_def)



text \<open>
  The side condition on the slot cannot be dropped. When two keys of a file are routed to
  the same slot, the later one overwrites the entry but a decoded companion set by the
  earlier one stays: \<^verbatim>\<open>f/01/m\<close> decodes, \<^verbatim>\<open>f/1/m\<close> does not, and after \<^verbatim>\<open>load\<close>
  fabric 1 holds the malformed entry together with the decoded metadata of the other key.
\<close>

lemma decoded_companion_of_an_earlier_key_stays:
  "loadData sample_env
       \<lparr>sdk_config = Some [(''f/01/m'', JStr ''FSUASxMsAQAY''), (''f/1/m'', JStr ''aW52YWxpZA=='')],
        repl_config = None\<rparr> newChipConfigData
     = newChipConfigData
        \<lparr>fabrics := [(1, (newFabric 1)
            \<lparr>metadata := Some \<lparr>raw = [0x69, 0x6E, 0x76, 0x61, 0x6C, 0x69, 0x64],
                                base64 = JStr ''aW52YWxpZA==''\<rparr>,
             metadataDecoded := Some \<lparr>vendorId = 4939, label = []\<rparr>\<rparr>)]\<rparr>"
  by (simp add: eval_defs sample_defs)


end
